theory Spec2Isabelle
  imports Complex_Main "HOL-Library.AList" "HOL-Library.Sublist"
begin

section \<open>Values, exceptions and effects\<close>

text \<open>
  A Python exception is its class name and its message (messages are written in ASCII).
  A dictionary with string keys and \<open>Optional[str]\<close> values is an association list in
  insertion order, as Python keeps it. A workflow state is such a dictionary.
\<close>

type_synonym pyexc = "string \<times> string"

type_synonym pydict = "(string \<times> string option) list"

text \<open>\<open>d.get(k)\<close>: \<open>None\<close> when the key is absent, and when it is present with value \<open>None\<close>.\<close>

definition dict_get :: "pydict \<Rightarrow> string \<Rightarrow> string option" where
  "dict_get d k = (case map_of d k of None \<Rightarrow> None | Some v \<Rightarrow> v)"

text \<open>\<open>d[k] = v\<close>: an existing key keeps its place, a new key goes to the end.\<close>

definition setitem :: "pydict \<Rightarrow> string \<Rightarrow> string option \<Rightarrow> pydict" where
  "setitem d k v = AList.update k v d"

definition keys :: "pydict \<Rightarrow> string list" where
  "keys d = map fst d"

text \<open>
  \<open>result[k]\<close> where \<open>result\<close> is a dictionary or \<open>None\<close>: subscripting \<open>None\<close> raises
  TypeError, a missing key raises KeyError.
\<close>

definition getitem :: "pydict option \<Rightarrow> string \<Rightarrow> pyexc + string option" where
  "getitem result k =
     (case result of
        None \<Rightarrow> Inl (''TypeError'', ''NoneType object is not subscriptable'')
      | Some d \<Rightarrow> (case map_of d k of None \<Rightarrow> Inl (''KeyError'', k) | Some v \<Rightarrow> Inr v))"

text \<open>
  What a tool does to the outside world is recorded as a list of events, threaded through
  every call; a call returns its value or the exception it raises, and the extended list.
\<close>

datatype event =
    ConfigRead
  | HttpGet nat
  | DirMade string
  | FileRead "string option"
  | FileWritten string
  | ApiCall string

type_synonym 'a io = "event list \<Rightarrow> (pyexc + 'a) \<times> event list"

definition io_return :: "'a \<Rightarrow> 'a io" where
  "io_return x evs = (Inr x, evs)"

definition io_raise :: "pyexc \<Rightarrow> 'a io" where
  "io_raise e evs = (Inl e, evs)"

definition io_lift :: "pyexc + 'a \<Rightarrow> 'a io" where
  "io_lift r evs = (r, evs)"

definition io_emit :: "event \<Rightarrow> unit io" where
  "io_emit ev evs = (Inr (), evs @ [ev])"

definition io_bind :: "'a io \<Rightarrow> ('a \<Rightarrow> 'b io) \<Rightarrow> 'b io" where
  "io_bind m f evs =
     (case m evs of (Inl e, evs') \<Rightarrow> (Inl e, evs') | (Inr x, evs') \<Rightarrow> f x evs')"

text \<open>\<open>try: m except Exception: return d\<close>.\<close>

definition io_catch_all :: "'a io \<Rightarrow> 'a \<Rightarrow> 'a io" where
  "io_catch_all m d evs =
     (case m evs of (Inl e, evs') \<Rightarrow> (Inr d, evs') | (Inr x, evs') \<Rightarrow> (Inr x, evs'))"

text \<open>POSIX \<open>os.path.join\<close> of two components, and \<open>os.path.dirname\<close>.\<close>

definition dirname :: "string \<Rightarrow> string" where
  "dirname p =
     (let head = rev (dropWhile (\<lambda>c. c \<noteq> CHR ''/'') (rev p)) in
      if filter (\<lambda>c. c \<noteq> CHR ''/'') head \<noteq> []
      then rev (dropWhile (\<lambda>c. c = CHR ''/'') (rev head)) else head)"

definition path_join :: "string \<Rightarrow> string \<Rightarrow> string" where
  "path_join a b =
     (if b \<noteq> [] \<and> hd b = CHR ''/'' then b
      else if a = [] \<or> last a = CHR ''/'' then a @ b
      else a @ ''/'' @ b)"

text \<open>
  \<open>str(Path(a) / Path(b))\<close> on POSIX: a path is a root (none, \<open>/\<close>, or \<open>//\<close> for exactly two
  leading slashes) and the parts between slashes, empty parts and \<open>.\<close> dropped; an absolute
  \<open>b\<close> replaces \<open>a\<close>; the empty path prints as \<open>.\<close>.
\<close>

fun split_on :: "char \<Rightarrow> string \<Rightarrow> string list" where
  "split_on c [] = [[]]"
| "split_on c (x # xs) =
     (if x = c then [] # split_on c xs
      else (case split_on c xs of [] \<Rightarrow> [[x]] | p # ps \<Rightarrow> (x # p) # ps))"

fun join_with :: "string \<Rightarrow> string list \<Rightarrow> string" where
  "join_with sep [] = []"
| "join_with sep [p] = p"
| "join_with sep (p # q # ps) = p @ sep @ join_with sep (q # ps)"

definition path_root :: "string \<Rightarrow> string" where
  "path_root p =
     (if take 2 p = ''//'' \<and> take 3 p \<noteq> ''///'' then ''//''
      else if take 1 p = ''/'' then ''/'' else [])"

definition path_parts :: "string \<Rightarrow> string list" where
  "path_parts p = filter (\<lambda>part. part \<noteq> [] \<and> part \<noteq> ''.'') (split_on (CHR ''/'') p)"

definition path_str :: "string \<Rightarrow> string list \<Rightarrow> string" where
  "path_str anchor parts =
     (if anchor = [] \<and> parts = [] then ''.'' else anchor @ join_with ''/'' parts)"

definition pathlib_join :: "string \<Rightarrow> string \<Rightarrow> string" where
  "pathlib_join a b =
     (if path_root b \<noteq> [] then path_str (path_root b) (path_parts b)
      else path_str (path_root a) (path_parts a @ path_parts b))"

section \<open>The environment of a run\<close>

text \<open>
  The configuration file \<open>conf/parameters.yaml\<close> is a dictionary of sections; a value is a
  string, an integer, a list of strings or a nested dictionary of strings.
\<close>

datatype cfgval = CStr string | CInt int | CList "string list" | CDict "(string \<times> string) list"

type_synonym cfgsection = "(string \<times> cfgval) list"

type_synonym config = "(string \<times> cfgsection) list"

text \<open>
  A data frame is its column names and its rows; a row gives a cell for a column name (a
  column it does not list reads as NaN). Instants are nanoseconds since the epoch.
\<close>

datatype cell = NaN | Num real | Txt string | Stamp int | NaT

type_synonym row = "(string \<times> cell) list"

record frame =
  columns :: "string list"
  rows :: "row list"

definition cell_of :: "row \<Rightarrow> string \<Rightarrow> cell" where
  "cell_of r c = (case map_of r c of None \<Rightarrow> NaN | Some x \<Rightarrow> x)"

text \<open>\<open>df.empty\<close>: some axis has length zero.\<close>

definition frame_empty :: "frame \<Rightarrow> bool" where
  "frame_empty df = (columns df = [] \<or> rows df = [])"

text \<open>
  A parsed JSON value: a string, an object, or any other value (number, boolean, null,
  array). An object and any other value carry the text that \<open>str\<close> prints for them.
\<close>

datatype json = JStr string | JObj "(string \<times> json) list" string | JOther string

text \<open>
  Everything outside the program that a run depends on; the libraries behind these fields
  are not part of the repository.
  \<^item> \<open>config_file\<close>: what \<open>yaml.safe_load\<close> of the configuration file gives, or the
    exception that opening or parsing it raises;
  \<^item> \<open>environ\<close>: the process environment after \<open>load_dotenv\<close>;
  \<^item> \<open>now\<close>: the instant \<open>datetime.now()\<close> returns; \<open>month_start\<close>: the first instant of
    the month an instant lies in;
  \<^item> \<open>dir_creatable\<close>, \<open>file_writable\<close>: whether \<open>os.makedirs\<close> of a directory and opening
    a path for writing succeed (they raise OSError otherwise);
  \<^item> \<open>url_format_error\<close>: the exception \<open>str.format\<close> raises on the URL template (a
    placeholder other than year and filename, a stray brace), if any;
  \<^item> \<open>http_download\<close>: for the link of each day offset, whether the request answered 200
    and the file was saved, or the exception other than a request error that escaped;
  \<^item> \<open>read_csv\<close>: the frame \<open>pd.read_csv\<close> reads from a path, or the exception it raises;
    \<open>parse_date\<close>: the instant a text denotes, if it denotes one;
  \<^item> \<open>fillna_in_place\<close>: whether \<open>df[col].fillna(x, inplace=True)\<close> changes the frame (it
    does in pandas without copy-on-write, it does not with it);
  \<^item> \<open>analysis_error\<close>, \<open>plot_error\<close>: the exceptions of the two chart analyses;
  \<^item> \<open>serper_wrapper_error\<close>: the exception building the search client from the search
    parameters raises, if any; \<open>serper_response\<close>: the result dictionary of the news
    search, or its exception;
  \<^item> \<open>read_text\<close>: the text of a file (read as JSON when the flag is set), \<open>None\<close> when it
    cannot be read or parsed; \<open>read_json\<close>: the value \<open>json.load\<close> reads from a file, or
    the exception of a file that is missing or is not JSON;
  \<^item> \<open>chat_completion\<close>: the content of the language model's answer to a prompt, \<open>None\<close>
    when the request fails or the answer has no content;
  \<^item> \<open>cwd\<close>: the working directory; \<open>pdf_error\<close>: whether building the PDF raises.
\<close>

record env =
  config_file :: "pyexc + config"
  environ :: "(string \<times> string) list"
  now :: int
  month_start :: "int \<Rightarrow> int"
  dir_creatable :: "string \<Rightarrow> bool"
  file_writable :: "string \<Rightarrow> bool"
  url_format_error :: "string \<Rightarrow> pyexc option"
  http_download :: "nat \<Rightarrow> pyexc + bool"
  read_csv :: "string \<Rightarrow> pyexc + frame"
  fillna_in_place :: bool
  parse_date :: "string \<Rightarrow> int option"
  analysis_error :: "string \<Rightarrow> pyexc option"
  plot_error :: "string \<Rightarrow> pyexc option"
  serper_wrapper_error :: "(string \<times> string) list \<Rightarrow> pyexc option"
  serper_response :: "pyexc + (string \<times> (string \<times> string) list list) list"
  read_text :: "bool \<Rightarrow> string \<Rightarrow> string option"
  read_json :: "string \<Rightarrow> pyexc + json"
  chat_completion :: "string \<Rightarrow> string option"
  cwd :: string
  pdf_error :: bool

section \<open>Configuration\<close>

text \<open>\<open>load_config\<close> returns the parsed file or re-raises what reading it raised.\<close>

definition load_config :: "env \<Rightarrow> config io" where
  "load_config env = io_bind (io_emit ConfigRead) (\<lambda>_. io_lift (config_file env))"

text \<open>\<open>config[name]\<close> and \<open>cfg[key]\<close>: KeyError when missing.\<close>

definition getsection :: "config \<Rightarrow> string \<Rightarrow> cfgsection io" where
  "getsection config name =
     (case map_of config name of None \<Rightarrow> io_raise (''KeyError'', name) | Some s \<Rightarrow> io_return s)"

definition getkey :: "cfgsection \<Rightarrow> string \<Rightarrow> cfgval io" where
  "getkey cfg k =
     (case map_of cfg k of None \<Rightarrow> io_raise (''KeyError'', k) | Some v \<Rightarrow> io_return v)"

text \<open>A configuration value used as a path component must be a string.\<close>

definition as_path :: "cfgval \<Rightarrow> string io" where
  "as_path v =
     (case v of CStr s \<Rightarrow> io_return s
      | _ \<Rightarrow> io_raise (''TypeError'', ''expected str, bytes or os.PathLike object''))"

definition getpath :: "cfgsection \<Rightarrow> string \<Rightarrow> string io" where
  "getpath cfg k = io_bind (getkey cfg k) as_path"

text \<open>
  \<open>a = cfg[k1]; os.path.join(a, cfg[k2])\<close>: both keys are read before the join looks
  at the type of either value.
\<close>

definition getpath2 :: "cfgsection \<Rightarrow> string \<Rightarrow> string \<Rightarrow> (string \<times> string) io" where
  "getpath2 cfg k1 k2 =
     io_bind (getkey cfg k1) (\<lambda>v1.
     io_bind (getkey cfg k2) (\<lambda>v2.
     io_bind (as_path v1) (\<lambda>a.
     io_bind (as_path v2) (\<lambda>b. io_return (a, b)))))"

text \<open>
  The handler every tool constructor wraps around its configuration access:
  \<open>except (FileNotFoundError, KeyError) as e: raise ValueError(msg) from e\<close>.
\<close>

definition config_guard :: "string \<Rightarrow> 'a io \<Rightarrow> 'a io" where
  "config_guard msg m evs =
     (case m evs of
        (Inl e, evs') \<Rightarrow>
          (if fst e = ''FileNotFoundError'' \<or> fst e = ''KeyError''
           then (Inl (''ValueError'', msg), evs') else (Inl e, evs'))
      | (Inr x, evs') \<Rightarrow> (Inr x, evs'))"

text \<open>\<open>os.makedirs(d, exist_ok=True)\<close> and a guarded write that reports whether it worked.\<close>

definition makedirs :: "env \<Rightarrow> string \<Rightarrow> unit io" where
  "makedirs env d =
     (if d = [] then io_raise (''FileNotFoundError'', d)
      else if dir_creatable env d then io_emit (DirMade d)
      else io_raise (''OSError'', d))"

definition try_write :: "env \<Rightarrow> string \<Rightarrow> bool io" where
  "try_write env p =
     (if file_writable env p then io_bind (io_emit (FileWritten p)) (\<lambda>_. io_return True)
      else io_return False)"

section \<open>Stage 1: download\<close>

record DataDownloaderTool =
  downloader_cfg :: cfgsection
  output_cfg :: cfgsection

definition DataDownloaderTool_init :: "env \<Rightarrow> DataDownloaderTool io" where
  "DataDownloaderTool_init env =
     config_guard ''Erro de configuracao impede a continuacao.''
       (io_bind (load_config env) (\<lambda>config.
        io_bind (getsection config ''downloader_config'') (\<lambda>d.
        io_bind (getsection config ''file_output'') (\<lambda>out.
        io_return \<lparr>downloader_cfg = d, output_cfg = out\<rparr>))))"

text \<open>
  \<open>_generate_download_links\<close>: one link per day, today first, for \<open>days_to_try\<close> days,
  each formatted from the URL template. A link is identified by its day offset.
\<close>

definition generate_download_links :: "env \<Rightarrow> DataDownloaderTool \<Rightarrow> nat list io" where
  "generate_download_links env tool =
     io_bind (getkey (downloader_cfg tool) ''days_to_try'') (\<lambda>days.
     io_bind (getkey (downloader_cfg tool) ''base_url'') (\<lambda>base_url.
       case days of
         CInt n \<Rightarrow>
           if nat n = 0 then io_return []
           else
             (case base_url of
                CStr u \<Rightarrow>
                  (case url_format_error env u of
                     Some e \<Rightarrow> io_raise e
                   | None \<Rightarrow> io_return [0 ..< nat n])
              | _ \<Rightarrow> io_raise (''AttributeError'', ''format''))
       | _ \<Rightarrow> io_raise (''TypeError'', ''object cannot be interpreted as an integer'')))"

text \<open>
  \<open>_download_and_save_file\<close>: \<open>True\<close> on status 200 with the file saved, \<open>False\<close> on any
  other status or a request error; anything else it raises escapes.
\<close>

definition download_and_save_file :: "env \<Rightarrow> nat \<Rightarrow> string \<Rightarrow> bool io" where
  "download_and_save_file env i save_path =
     io_bind (io_emit (HttpGet i)) (\<lambda>_.
       case http_download env i of
         Inl e \<Rightarrow> io_raise e
       | Inr True \<Rightarrow> io_bind (io_emit (FileWritten save_path)) (\<lambda>_. io_return True)
       | Inr False \<Rightarrow> io_return False)"

text \<open>The downloader's \<open>_save_metadata\<close>: the path written, or \<open>None\<close> on an I/O error.\<close>

definition downloader_save_metadata :: "env \<Rightarrow> string \<Rightarrow> string option io" where
  "downloader_save_metadata env dest_folder =
     (let metadata_path = path_join dest_folder ''metadata.json'' in
      io_bind (try_write env metadata_path) (\<lambda>ok.
        io_return (if ok then Some metadata_path else None)))"

text \<open>
  The loop of \<open>run_download_process\<close> over the links: the first link that downloads ends
  it with the result dictionary; when none does, the result is \<open>None\<close>.
\<close>

fun try_links :: "env \<Rightarrow> string \<Rightarrow> string \<Rightarrow> nat list \<Rightarrow> pydict option io" where
  "try_links env dest_folder full_save_path [] = io_return None"
| "try_links env dest_folder full_save_path (i # rest) =
     io_bind (download_and_save_file env i full_save_path) (\<lambda>ok.
       if ok then
         io_bind (downloader_save_metadata env dest_folder) (\<lambda>metadata_path.
           io_return (Some [(''downloaded_file_path'', Some full_save_path),
                            (''metadata_file_path'', metadata_path)]))
       else try_links env dest_folder full_save_path rest)"

definition run_download_process :: "env \<Rightarrow> DataDownloaderTool \<Rightarrow> pydict option io" where
  "run_download_process env tool =
     io_bind (getpath (output_cfg tool) ''destination_folder'') (\<lambda>dest_folder.
     io_bind (makedirs env dest_folder) (\<lambda>_.
     io_bind (getpath (output_cfg tool) ''destination_filename'') (\<lambda>fname.
     io_bind (generate_download_links env tool) (\<lambda>links_to_try.
       try_links env dest_folder (path_join dest_folder fname) links_to_try))))"

text \<open>
  An agent constructor builds its tool and re-raises a ValueError after logging it, so it
  raises exactly what the tool constructor raises. \<open>if result:\<close> on a dictionary or \<open>None\<close>
  is false for \<open>None\<close> and for the empty dictionary.
\<close>

definition truthy_dict :: "pydict option \<Rightarrow> bool" where
  "truthy_dict r = (case r of None \<Rightarrow> False | Some d \<Rightarrow> d \<noteq> [])"

definition truthy_str :: "string option \<Rightarrow> bool" where
  "truthy_str r = (case r of None \<Rightarrow> False | Some s \<Rightarrow> s \<noteq> [])"

definition DataDownloaderAgent_init :: "env \<Rightarrow> DataDownloaderTool io" where
  "DataDownloaderAgent_init env = DataDownloaderTool_init env"

definition DataDownloaderAgent_run :: "env \<Rightarrow> DataDownloaderTool \<Rightarrow> pydict option io" where
  "DataDownloaderAgent_run env tool =
     io_bind (run_download_process env tool) (\<lambda>result.
       if truthy_dict result then io_return result else io_return None)"

section \<open>Stage 2: preprocess\<close>

record DataPreprocessorTool =
  downloaded_file_path :: "string option"
  proc_cfg :: cfgsection

definition DataPreprocessorTool_init :: "env \<Rightarrow> string option \<Rightarrow> DataPreprocessorTool io" where
  "DataPreprocessorTool_init env path =
     config_guard ''Erro de configuracao impede a continuacao.''
       (io_bind (load_config env) (\<lambda>config.
        io_bind (getsection config ''preprocessing'') (\<lambda>s.
        io_return \<lparr>downloaded_file_path = path, proc_cfg = s\<rparr>)))"

text \<open>
  What \<open>df[columns]\<close> gives: a frame for a list of names, a single column (a series) for
  one name.
\<close>

datatype loaded = Frame frame | Series "cell list"

definition select_columns :: "frame \<Rightarrow> string list \<Rightarrow> frame" where
  "select_columns df cols =
     \<lparr>columns = cols, rows = map (\<lambda>r. map (\<lambda>c. (c, cell_of r c)) cols) (rows df)\<rparr>"

text \<open>
  \<open>_load_raw_data\<close>: every exception inside it, also the one \<open>read_csv\<close> raises on the
  path \<open>None\<close>, is caught and gives \<open>None\<close>. The names to keep are iterated to find the
  missing ones: a list gives its elements, a string its characters, a dictionary its keys,
  an integer cannot be iterated. Then \<open>df[columns]\<close> is taken: with a dictionary it raises.
\<close>

definition load_raw_data :: "env \<Rightarrow> string option \<Rightarrow> cfgval \<Rightarrow> loaded option io" where
  "load_raw_data env full_path cols =
     io_bind (io_emit (FileRead full_path)) (\<lambda>_.
       io_return
         (case full_path of
            None \<Rightarrow> None
          | Some p \<Rightarrow>
              (case read_csv env p of
                 Inl e \<Rightarrow> None
               | Inr df \<Rightarrow>
                   (case cols of
                      CList cs \<Rightarrow>
                        (let missing_cols = filter (\<lambda>c. c \<notin> set (columns df)) cs in
                         if missing_cols \<noteq> [] then None
                         else Some (Frame (select_columns df cs)))
                    | CStr name \<Rightarrow>
                        (let missing_cols = filter (\<lambda>c. [c] \<notin> set (columns df)) name in
                         if missing_cols \<noteq> [] then None
                         else if name \<notin> set (columns df) then None
                         else Some (Series (map (\<lambda>r. cell_of r name) (rows df))))
                    | CDict d \<Rightarrow> None
                    | CInt n \<Rightarrow> None))))"

definition coerce_datetime :: "env \<Rightarrow> cell \<Rightarrow> cell" where
  "coerce_datetime env c =
     (case c of
        Txt s \<Rightarrow> (case parse_date env s of None \<Rightarrow> NaT | Some t \<Rightarrow> Stamp t)
      | Stamp t \<Rightarrow> Stamp t
      | Num x \<Rightarrow> Stamp \<lfloor>x\<rfloor>
      | _ \<Rightarrow> NaT)"

definition isna :: "cell \<Rightarrow> bool" where
  "isna c = (c = NaN \<or> c = NaT)"

definition process_notification_date :: "env \<Rightarrow> frame \<Rightarrow> frame io" where
  "process_notification_date env df =
     (if ''DT_NOTIFIC'' \<notin> set (columns df) then io_raise (''KeyError'', ''DT_NOTIFIC'')
      else io_return
        \<lparr>columns = map (\<lambda>c. if c = ''DT_NOTIFIC'' then ''DATA_NOTIFICACAO'' else c) (columns df),
         rows = map (map (\<lambda>(c, v). if c = ''DT_NOTIFIC''
                                     then (''DATA_NOTIFICACAO'', coerce_datetime env v) else (c, v)))
                  (filter (\<lambda>r. \<not> isna (cell_of r ''DT_NOTIFIC'')) (rows df))\<rparr>)"

definition replace_codes :: "(real \<times> string) list \<Rightarrow> cell \<Rightarrow> cell" where
  "replace_codes mapping c =
     (case c of
        Num x \<Rightarrow> (case map_of mapping x of None \<Rightarrow> Num x | Some l \<Rightarrow> Txt l)
      | _ \<Rightarrow> c)"

definition fillna :: "real \<Rightarrow> cell \<Rightarrow> cell" where
  "fillna x c = (if isna c then Num x else c)"

definition map_column :: "string \<Rightarrow> (cell \<Rightarrow> cell) \<Rightarrow> frame \<Rightarrow> frame" where
  "map_column col f df =
     df\<lparr>rows := map (map (\<lambda>(c, v). if c = col then (c, f v) else (c, v))) (rows df)\<rparr>"

text \<open>\<open>df[col].fillna(x, inplace=True)\<close> on one cell.\<close>

definition fillna_inplace :: "env \<Rightarrow> real \<Rightarrow> cell \<Rightarrow> cell" where
  "fillna_inplace env x c = (if fillna_in_place env then fillna x c else c)"

fun process_mapped_columns ::
  "env \<Rightarrow> frame \<Rightarrow> string list \<Rightarrow> (real \<times> string) list \<Rightarrow> frame" where
  "process_mapped_columns env df [] mapping = df"
| "process_mapped_columns env df (col # cols) mapping =
     process_mapped_columns env
       (if col \<in> set (columns df)
        then map_column col (replace_codes mapping \<circ> fillna_inplace env 9) df else df)
       cols mapping"

definition process_evolution_column :: "env \<Rightarrow> frame \<Rightarrow> (real \<times> string) list \<Rightarrow> frame" where
  "process_evolution_column env df mapping =
     (if ''EVOLUCAO'' \<in> set (columns df)
      then map_column ''EVOLUCAO''
             (replace_codes mapping \<circ> (\<lambda>c. if c = Num 3 then Num 2 else c)
                \<circ> fillna_inplace env 9) df
      else df)"

text \<open>
  \<open>_clean_and_transform_data\<close>. On a series that is not empty the first cleaning step,
  \<open>dropna(subset=...)\<close>, raises TypeError.
\<close>

definition clean_and_transform_data :: "env \<Rightarrow> loaded \<Rightarrow> frame io" where
  "clean_and_transform_data env ld =
     (case ld of
        Series vs \<Rightarrow>
          if vs = [] then io_return \<lparr>columns = [], rows = []\<rparr>
          else io_raise (''TypeError'', ''dropna() got an unexpected keyword argument subset'')
      | Frame df \<Rightarrow>
          if frame_empty df then io_return \<lparr>columns = [], rows = []\<rparr>
          else
            (let map_sim_nao = [(1, ''SIM''), (2, ''NAO''), (9, ''IGNORADO'')];
                 map_evolucao = [(1, ''CURA''), (2, ''OBITO''), (9, ''IGNORADO'')] in
             io_bind (process_notification_date env df) (\<lambda>df1.
               io_return
                 (process_evolution_column env
                    (process_mapped_columns env df1 [''UTI'', ''VACINA'', ''VACINA_COV''] map_sim_nao)
                    map_evolucao))))"

definition save_processed_data :: "env \<Rightarrow> frame \<Rightarrow> string \<Rightarrow> bool io" where
  "save_processed_data env df full_path =
     (if frame_empty df then io_return False
      else io_catch_all
             (io_bind (makedirs env (dirname full_path)) (\<lambda>_. try_write env full_path))
             False)"

definition save_metadata :: "env \<Rightarrow> string \<Rightarrow> bool io" where
  "save_metadata env output_folder = try_write env (path_join output_folder ''metadata.json'')"

definition run_preprocessing_process :: "env \<Rightarrow> DataPreprocessorTool \<Rightarrow> pydict option io" where
  "run_preprocessing_process env tool =
     io_bind (getpath2 (proc_cfg tool) ''output_folder'' ''output_filename'') (\<lambda>folder_and_name.
     let output_folder = fst folder_and_name;
         output_path = path_join output_folder (snd folder_and_name) in
     io_bind (getkey (proc_cfg tool) ''columns_to_keep'') (\<lambda>cols.
     io_bind (load_raw_data env (downloaded_file_path tool) cols) (\<lambda>df_raw.
       case df_raw of
         None \<Rightarrow> io_return None
       | Some df \<Rightarrow>
           io_bind (clean_and_transform_data env df) (\<lambda>df_processed.
           io_bind (save_processed_data env df_processed output_path) (\<lambda>csv_success.
             if \<not> csv_success then io_return None
             else
               io_bind (save_metadata env output_folder) (\<lambda>metadata_success.
                 if \<not> metadata_success then io_return None
                 else io_return (Some [(''processed_data_file_path'', Some output_path)])))))))"

definition DataPreprocessorAgent_init :: "env \<Rightarrow> string option \<Rightarrow> DataPreprocessorTool io" where
  "DataPreprocessorAgent_init env path = DataPreprocessorTool_init env path"

definition DataPreprocessorAgent_run :: "env \<Rightarrow> DataPreprocessorTool \<Rightarrow> pydict option io" where
  "DataPreprocessorAgent_run env tool =
     io_bind (run_preprocessing_process env tool) (\<lambda>result.
       if truthy_dict result then io_return result else io_return None)"

section \<open>Stage 3: metrics\<close>

text \<open>
  A Python float is a real number or positive infinity; the rounding error of binary
  floating point is not modelled. \<open>round(x, 2)\<close> rounds half to even and keeps infinity.
  The theorems about the rates round the values 0 and infinity only, which binary floating
  point rounds the same way.
\<close>

datatype pyfloat = Fin real | PosInf

definition round_half_even :: "real \<Rightarrow> int" where
  "round_half_even y =
     (let f = \<lfloor>y\<rfloor> in
      if y - of_int f < 1 / 2 then f
      else if y - of_int f > 1 / 2 then f + 1
      else if even f then f else f + 1)"

definition py_round2 :: "pyfloat \<Rightarrow> pyfloat" where
  "py_round2 x =
     (case x of PosInf \<Rightarrow> PosInf | Fin r \<Rightarrow> Fin (of_int (round_half_even (r * 100)) / 100))"

definition days :: "int \<Rightarrow> int" where
  "days n = n * 86400000000000"

record MetricsCalculatorTool =
  mc_processed_data_file_path :: "string option"
  mc_cfg :: cfgsection

definition MetricsCalculatorTool_init :: "env \<Rightarrow> string option \<Rightarrow> MetricsCalculatorTool io" where
  "MetricsCalculatorTool_init env path =
     config_guard ''Erro de configuracao impede a continuacao do calculo de metricas.''
       (io_bind (load_config env) (\<lambda>config.
        io_bind (getsection config ''metrics_calculator'') (\<lambda>s.
        io_return \<lparr>mc_processed_data_file_path = path, mc_cfg = s\<rparr>)))"

text \<open>\<open>pd.to_datetime\<close> without \<open>errors="coerce"\<close>: a text that is no date raises.\<close>

definition strict_datetime :: "env \<Rightarrow> cell \<Rightarrow> cell option" where
  "strict_datetime env c =
     (case c of
        Txt s \<Rightarrow> map_option Stamp (parse_date env s)
      | Stamp t \<Rightarrow> Some (Stamp t)
      | Num x \<Rightarrow> Some (Stamp \<lfloor>x\<rfloor>)
      | _ \<Rightarrow> Some NaT)"

definition set_cell :: "string \<Rightarrow> cell \<Rightarrow> row \<Rightarrow> row" where
  "set_cell c v r = AList.update c v r"

text \<open>
  \<open>_load_and_preprocess_data\<close>: reads the file and parses the date column. Every exception
  inside it (the path \<open>None\<close>, a missing file, a missing date column, a text that is no
  date) is caught and gives \<open>None\<close>.
\<close>

definition load_and_preprocess_data :: "env \<Rightarrow> string option \<Rightarrow> frame option io" where
  "load_and_preprocess_data env filepath =
     io_bind (io_emit (FileRead filepath)) (\<lambda>_.
       io_return
         (case filepath of
            None \<Rightarrow> None
          | Some p \<Rightarrow>
              (case read_csv env p of
                 Inl e \<Rightarrow> None
               | Inr df \<Rightarrow>
                   if ''DATA_NOTIFICACAO'' \<notin> set (columns df) then None
                   else
                     (case those (map (\<lambda>r. strict_datetime env (cell_of r ''DATA_NOTIFICACAO''))
                                    (rows df)) of
                        None \<Rightarrow> None
                      | Some ds \<Rightarrow>
                          Some (df\<lparr>rows := map (\<lambda>(r, d). set_cell ''DATA_NOTIFICACAO'' d r)
                                              (zip (rows df) ds)\<rparr>)))))"

text \<open>\<open>df[c]\<close> raises KeyError when the frame has no column \<open>c\<close>.\<close>

definition need_column :: "frame \<Rightarrow> string \<Rightarrow> unit io" where
  "need_column df c = (if c \<in> set (columns df) then io_return () else io_raise (''KeyError'', c))"

text \<open>The mask \<open>(df["DATA_NOTIFICACAO"] >= start) & (df["DATA_NOTIFICACAO"] <= end)\<close>.\<close>

definition in_period :: "int \<Rightarrow> int \<Rightarrow> row \<Rightarrow> bool" where
  "in_period start_date end_date r =
     (case cell_of r ''DATA_NOTIFICACAO'' of
        Stamp t \<Rightarrow> start_date \<le> t \<and> t \<le> end_date
      | _ \<Rightarrow> False)"

definition calculate_increase_rate :: "frame \<Rightarrow> int \<Rightarrow> int \<Rightarrow> int \<Rightarrow> int \<Rightarrow> pyfloat io" where
  "calculate_increase_rate df current_period_start current_period_end
       previous_period_start previous_period_end =
     io_bind (need_column df ''DATA_NOTIFICACAO'') (\<lambda>_.
       let current_cases = length (filter (in_period current_period_start current_period_end) (rows df));
           previous_cases = length (filter (in_period previous_period_start previous_period_end) (rows df))
       in
         if previous_cases = 0
         then io_return (if current_cases > 0 then PosInf else Fin 0)
         else io_return (Fin ((of_int (int current_cases - int previous_cases)
                                / of_nat previous_cases) * 100)))"

definition calculate_mortality_rate :: "frame \<Rightarrow> int \<Rightarrow> int \<Rightarrow> pyfloat io" where
  "calculate_mortality_rate df start_date end_date =
     io_bind (need_column df ''DATA_NOTIFICACAO'') (\<lambda>_.
     let period_df = filter (in_period start_date end_date) (rows df) in
     io_bind (need_column df ''EVOLUCAO'') (\<lambda>_.
       let evolution_defined =
             filter (\<lambda>r. cell_of r ''EVOLUCAO'' = Txt ''CURA'' \<or> cell_of r ''EVOLUCAO'' = Txt ''OBITO'')
               period_df
       in
         if evolution_defined = [] then io_return (Fin 0)
         else
           (let deaths = length (filter (\<lambda>r. cell_of r ''EVOLUCAO'' = Txt ''OBITO'') evolution_defined)
            in io_return (Fin ((of_nat deaths / of_nat (length evolution_defined)) * 100)))))"

definition calculate_uti_occupancy_rate :: "frame \<Rightarrow> int \<Rightarrow> int \<Rightarrow> pyfloat io" where
  "calculate_uti_occupancy_rate df start_date end_date =
     io_bind (need_column df ''DATA_NOTIFICACAO'') (\<lambda>_.
     let period_df = filter (in_period start_date end_date) (rows df) in
     io_bind (need_column df ''UTI'') (\<lambda>_.
       let uti_defined =
             filter (\<lambda>r. cell_of r ''UTI'' = Txt ''SIM'' \<or> cell_of r ''UTI'' = Txt ''NAO'') period_df
       in
         if uti_defined = [] then io_return (Fin 0)
         else
           (let uti_cases = length (filter (\<lambda>r. cell_of r ''UTI'' = Txt ''SIM'') uti_defined)
            in io_return (Fin ((of_nat uti_cases / of_nat (length uti_defined)) * 100)))))"

definition calculate_vaccination_rate :: "frame \<Rightarrow> int \<Rightarrow> int \<Rightarrow> string \<Rightarrow> pyfloat io" where
  "calculate_vaccination_rate df start_date end_date vaccine_column =
     io_bind (need_column df ''DATA_NOTIFICACAO'') (\<lambda>_.
     let period_df = filter (in_period start_date end_date) (rows df) in
     io_bind (need_column df vaccine_column) (\<lambda>_.
       let vaccine_defined =
             filter (\<lambda>r. cell_of r vaccine_column = Txt ''SIM'' \<or> cell_of r vaccine_column = Txt ''NAO'')
               period_df
       in
         if vaccine_defined = [] then io_return (Fin 0)
         else
           (let vaccinated_cases =
                  length (filter (\<lambda>r. cell_of r vaccine_column = Txt ''SIM'') vaccine_defined)
            in io_return (Fin ((of_nat vaccinated_cases / of_nat (length vaccine_defined)) * 100)))))"

text \<open>
  The periods \<open>run_metrics_calculation\<close> derives from the clock. \<open>month_start\<close> is the first
  instant of the month of an instant.
\<close>

record periods =
  last_30_days_start :: int
  last_30_days_end :: int
  previous_30_days_start :: int
  previous_30_days_end :: int
  last_7_days_start :: int
  last_7_days_end :: int
  previous_7_days_start :: int
  previous_7_days_end :: int
  current_month_start :: int
  current_month_end :: int
  last_month_start :: int
  last_month_end :: int

definition periods_analyzed :: "env \<Rightarrow> periods" where
  "periods_analyzed env =
     (let n = now env;
          l30s = n - days 30; p30e = l30s - days 1; p30s = p30e - days 30;
          l7s = n - days 7; p7e = l7s - days 1; p7s = p7e - days 7;
          cms = month_start env n; lme = cms - days 1; lms = month_start env lme
      in \<lparr>last_30_days_start = l30s, last_30_days_end = n,
          previous_30_days_start = p30s, previous_30_days_end = p30e,
          last_7_days_start = l7s, last_7_days_end = n,
          previous_7_days_start = p7s, previous_7_days_end = p7e,
          current_month_start = cms, current_month_end = n,
          last_month_start = lms, last_month_end = lme\<rparr>)"

type_synonym metrics = "(string \<times> (string \<times> pyfloat) list) list"

text \<open>One rate over the three windows of the metrics dictionary, each rounded.\<close>

definition over_windows :: "periods \<Rightarrow> (int \<Rightarrow> int \<Rightarrow> pyfloat io) \<Rightarrow> (string \<times> pyfloat) list io" where
  "over_windows p rate =
     io_bind (rate (last_30_days_start p) (last_30_days_end p)) (\<lambda>a.
     io_bind (rate (last_7_days_start p) (last_7_days_end p)) (\<lambda>b.
     io_bind (rate (current_month_start p) (current_month_end p)) (\<lambda>c.
       io_return [(''last_30_days'', py_round2 a), (''last_7_days'', py_round2 b),
                  (''current_month'', py_round2 c)])))"

definition increase_rates :: "periods \<Rightarrow> frame \<Rightarrow> (string \<times> pyfloat) list io" where
  "increase_rates p df =
     io_bind (calculate_increase_rate df (last_30_days_start p) (last_30_days_end p)
                (previous_30_days_start p) (previous_30_days_end p)) (\<lambda>a.
     io_bind (calculate_increase_rate df (last_7_days_start p) (last_7_days_end p)
                (previous_7_days_start p) (previous_7_days_end p)) (\<lambda>b.
     io_bind (calculate_increase_rate df (current_month_start p) (current_month_end p)
                (last_month_start p) (last_month_end p)) (\<lambda>c.
       io_return [(''last_30_days_vs_previous'', py_round2 a),
                  (''last_7_days_vs_previous'', py_round2 b),
                  (''current_month_vs_previous'', py_round2 c)])))"

definition compute_metrics :: "periods \<Rightarrow> frame \<Rightarrow> metrics io" where
  "compute_metrics p df =
     io_bind (increase_rates p df) (\<lambda>inc.
     io_bind (over_windows p (calculate_mortality_rate df)) (\<lambda>mort.
     io_bind (over_windows p (calculate_uti_occupancy_rate df)) (\<lambda>uti.
     io_bind (over_windows p (\<lambda>s e. calculate_vaccination_rate df s e ''VACINA'')) (\<lambda>flu.
     io_bind (over_windows p (\<lambda>s e. calculate_vaccination_rate df s e ''VACINA_COV'')) (\<lambda>cov.
       io_return [(''increase_rate'', inc), (''mortality_rate'', mort),
                  (''uti_occupancy_rate'', uti), (''vaccination_rate_flu'', flu),
                  (''vaccination_rate_covid'', cov)])))))"

text \<open>\<open>_save_json_file\<close>: a failed write is logged and swallowed.\<close>

definition save_json_file :: "env \<Rightarrow> cfgsection \<Rightarrow> string \<Rightarrow> unit io" where
  "save_json_file env cfg filename =
     io_bind (getpath cfg ''output_dir'') (\<lambda>output_dir.
     io_bind (makedirs env output_dir) (\<lambda>_.
     io_bind (try_write env (path_join output_dir filename)) (\<lambda>_. io_return ())))"

definition run_metrics_calculation :: "env \<Rightarrow> MetricsCalculatorTool \<Rightarrow> pydict option io" where
  "run_metrics_calculation env tool =
     io_bind (load_and_preprocess_data env (mc_processed_data_file_path tool)) (\<lambda>loaded.
       case loaded of
         None \<Rightarrow> io_return None
       | Some df \<Rightarrow>
           io_bind (compute_metrics (periods_analyzed env) df) (\<lambda>metrics.
           io_bind (save_json_file env (mc_cfg tool) ''metadata.json'') (\<lambda>_.
           io_bind (save_json_file env (mc_cfg tool) ''periods.json'') (\<lambda>_.
           io_bind (save_json_file env (mc_cfg tool) ''metrics.json'') (\<lambda>_.
           io_bind (getpath (mc_cfg tool) ''output_dir'') (\<lambda>output_dir.
             io_return (Some [(''periods_file_path'', Some (path_join output_dir ''periods.json'')),
                              (''metrics_file_path'', Some (path_join output_dir ''metrics.json''))])))))))"

definition MetricsCalculatorAgent_init :: "env \<Rightarrow> string option \<Rightarrow> MetricsCalculatorTool io" where
  "MetricsCalculatorAgent_init env path = MetricsCalculatorTool_init env path"

definition MetricsCalculatorAgent_run :: "env \<Rightarrow> MetricsCalculatorTool \<Rightarrow> pydict option io" where
  "MetricsCalculatorAgent_run env tool =
     io_bind (run_metrics_calculation env tool) (\<lambda>result.
       if truthy_dict result then io_return result else io_return None)"

section \<open>Stage 4: visualisations\<close>

record VisualizationsTool =
  vz_processed_data_file_path :: "string option"
  vz_cfg :: cfgsection

definition VisualizationsTool_init :: "env \<Rightarrow> string option \<Rightarrow> VisualizationsTool io" where
  "VisualizationsTool_init env path =
     config_guard ''Erro de configuracao impede a continuacao da geracao de visualizacoes.''
       (io_bind (load_config env) (\<lambda>config.
        io_bind (getsection config ''visualizations_tool'') (\<lambda>s.
        io_return \<lparr>vz_processed_data_file_path = path, vz_cfg = s\<rparr>)))"

text \<open>
  \<open>_generate_last_30_days_analysis\<close> and \<open>_generate_last_12_months_analysis\<close>: the counts go
  to a JSON file, the chart to a PNG file. \<open>analysis_error\<close> is the exception that the
  selection and grouping of the rows raises, if any, and \<open>plot_error\<close> the one that drawing
  and saving the chart raises; nothing catches them.
\<close>

definition generate_analysis :: "env \<Rightarrow> VisualizationsTool \<Rightarrow> string \<Rightarrow> unit io" where
  "generate_analysis env tool name =
     io_bind (getpath (vz_cfg tool) ''output_dir'') (\<lambda>output_folder.
       case analysis_error env name of
         Some e \<Rightarrow> io_raise e
       | None \<Rightarrow>
           io_bind (save_json_file env (vz_cfg tool) (name @ ''.json'')) (\<lambda>_.
             case plot_error env name of
               Some e \<Rightarrow> io_raise e
             | None \<Rightarrow> io_emit (FileWritten (path_join output_folder (name @ ''.png'')))))"

definition run_visualization_process :: "env \<Rightarrow> VisualizationsTool \<Rightarrow> pydict option io" where
  "run_visualization_process env tool =
     io_bind (getpath (vz_cfg tool) ''output_dir'') (\<lambda>output_folder.
     io_bind (makedirs env output_folder) (\<lambda>_.
     io_bind (save_json_file env (vz_cfg tool) ''metadata.json'') (\<lambda>_.
     io_bind (load_and_preprocess_data env (vz_processed_data_file_path tool)) (\<lambda>loaded.
       case loaded of
         None \<Rightarrow> io_return None
       | Some df \<Rightarrow>
           io_bind (generate_analysis env tool ''last_30_days'') (\<lambda>_.
           io_bind (generate_analysis env tool ''last_12_months'') (\<lambda>_.
             io_return
               (Some [(''last_30_days_json_file_path'',
                         Some (path_join output_folder ''last_30_days.json'')),
                      (''last_30_days_plot_file_path'',
                         Some (path_join output_folder ''last_30_days.png'')),
                      (''last_12_months_json_file_path'',
                         Some (path_join output_folder ''last_12_months.json'')),
                      (''last_12_months_plot_file_path'',
                         Some (path_join output_folder ''last_12_months.png''))])))))))"

definition VisualizationsAgent_init :: "env \<Rightarrow> string option \<Rightarrow> VisualizationsTool io" where
  "VisualizationsAgent_init env path = VisualizationsTool_init env path"

definition VisualizationsAgent_run :: "env \<Rightarrow> VisualizationsTool \<Rightarrow> pydict option io" where
  "VisualizationsAgent_run env tool =
     io_bind (run_visualization_process env tool) (\<lambda>result.
       if truthy_dict result then io_return result else io_return None)"

section \<open>Stage 5: news\<close>

text \<open>\<open>os.getenv(name)\<close> used as a condition: false when unset or empty.\<close>

definition has_env :: "env \<Rightarrow> string \<Rightarrow> bool" where
  "has_env env name = truthy_str (map_of (environ env) name)"

record NewsCollectorTool =
  news_cfg :: cfgsection

definition NewsCollectorTool_init :: "env \<Rightarrow> NewsCollectorTool io" where
  "NewsCollectorTool_init env =
     (if \<not> has_env env ''SERPER_API_KEY''
      then io_raise (''ValueError'', ''SERPER_API_KEY nao definida no arquivo .env ou no ambiente.'')
      else config_guard ''Erro de configuracao impede a continuacao.''
             (io_bind (load_config env) (\<lambda>config.
              io_bind (getsection config ''news_config'') (\<lambda>s.
              io_return \<lparr>news_cfg = s\<rparr>))))"

type_synonym news_item = "(string \<times> string) list"

text \<open>
  \<open>_search_news\<close>: the five search parameters are read and the search client is built
  from them, the search terms are read, then the service is called; any exception on the
  way gives the empty dictionary.
\<close>

definition search_news :: "env \<Rightarrow> NewsCollectorTool \<Rightarrow> (string \<times> news_item list) list io" where
  "search_news env tool =
     io_catch_all
       (io_bind (getkey (news_cfg tool) ''search_parameters'') (\<lambda>search_params.
          case search_params of
            CDict d \<Rightarrow>
              if filter (\<lambda>k. map_of d k = None)
                   [''type'', ''time_period'', ''country_code'', ''language_code'', ''num_results'']
                 \<noteq> []
              then io_raise (''KeyError'', ''search_parameters'')
              else
                (case serper_wrapper_error env d of
                   Some e \<Rightarrow> io_raise e
                 | None \<Rightarrow>
                     io_bind (getkey (news_cfg tool) ''search_terms'') (\<lambda>_.
                     io_bind (io_emit (ApiCall ''serper'')) (\<lambda>_.
                       io_lift (serper_response env))))
          | _ \<Rightarrow> io_raise (''TypeError'', ''search_parameters'')))
       []"

definition item_get :: "news_item \<Rightarrow> string \<Rightarrow> string" where
  "item_get item k = (case map_of item k of None \<Rightarrow> ''N/A'' | Some v \<Rightarrow> v)"

definition format_results :: "(string \<times> news_item list) list \<Rightarrow> news_item list" where
  "format_results results =
     (case map_of results ''news'' of
        None \<Rightarrow> []
      | Some items \<Rightarrow>
          map (\<lambda>item. [(''titulo'', item_get item ''title''),
                        (''conteudo'', item_get item ''snippet''),
                        (''data'', item_get item ''date''),
                        (''fonte'', item_get item ''source'')]) items)"

definition save_results :: "env \<Rightarrow> NewsCollectorTool \<Rightarrow> string option io" where
  "save_results env tool =
     io_bind (getpath2 (news_cfg tool) ''output_dir'' ''output_filename'') (\<lambda>dir_and_name.
     let output_dir = fst dir_and_name;
         output_file = path_join output_dir (snd dir_and_name) in
     io_catch_all
       (io_bind (makedirs env output_dir) (\<lambda>_.
        io_bind (try_write env output_file) (\<lambda>ok.
          io_return (if ok then Some output_file else None))))
       None)"

definition news_save_metadata :: "env \<Rightarrow> NewsCollectorTool \<Rightarrow> unit io" where
  "news_save_metadata env tool =
     io_bind (getpath (news_cfg tool) ''output_dir'') (\<lambda>dest_folder.
     io_bind (try_write env (path_join dest_folder ''metadata.json'')) (\<lambda>_. io_return ()))"

definition run_collection_process :: "env \<Rightarrow> NewsCollectorTool \<Rightarrow> string option io" where
  "run_collection_process env tool =
     io_bind (search_news env tool) (\<lambda>raw_results.
       if raw_results = [] then io_return None
       else
         (let formatted_news = format_results raw_results in
          if formatted_news = [] then io_return None
          else
            io_bind (save_results env tool) (\<lambda>result.
              if truthy_str result
              then io_bind (news_save_metadata env tool) (\<lambda>_. io_return result)
              else io_return None)))"

definition NewsCollectorAgent_init :: "env \<Rightarrow> NewsCollectorTool io" where
  "NewsCollectorAgent_init env = NewsCollectorTool_init env"

definition NewsCollectorAgent_run :: "env \<Rightarrow> NewsCollectorTool \<Rightarrow> pydict option io" where
  "NewsCollectorAgent_run env tool =
     io_bind (run_collection_process env tool) (\<lambda>result.
       if truthy_str result then io_return (Some [(''news_file_path'', result)])
       else io_return None)"

section \<open>Stage 6: narrative report\<close>

text \<open>\<open>s.replace(old, new)\<close>: every occurrence, left to right, without overlap.\<close>

function str_replace :: "string \<Rightarrow> string \<Rightarrow> string \<Rightarrow> string" where
  "str_replace old new s =
     (if old = [] then new @ concat (map (\<lambda>c. c # new) s)
      else if s = [] then []
      else if prefix old s then new @ str_replace old new (drop (length old) s)
      else hd s # str_replace old new (tl s))"
  by pat_completeness auto
termination
  by (relation "measure (\<lambda>(old, new, s). length s)") auto

declare str_replace.simps [simp del]

record ReportGeneratorTool =
  rg_metrics_file_path :: "string option"
  rg_last_30_days_json_file_path :: "string option"
  rg_last_12_months_json_file_path :: "string option"
  rg_news_file_path :: "string option"
  report_cfg :: cfgsection

definition ReportGeneratorTool_init ::
  "env \<Rightarrow> string option \<Rightarrow> string option \<Rightarrow> string option \<Rightarrow> string option \<Rightarrow> ReportGeneratorTool io" where
  "ReportGeneratorTool_init env metrics_path days_path months_path news_path =
     (if \<not> has_env env ''OPENAI_API_KEY''
      then io_raise (''ValueError'', ''OPENAI_API_KEY nao definida no arquivo .env ou no ambiente.'')
      else config_guard ''Erro de configuracao impede a continuacao.''
             (io_bind (load_config env) (\<lambda>config.
              io_bind (getsection config ''report_generator_config'') (\<lambda>s.
              io_return \<lparr>rg_metrics_file_path = metrics_path,
                         rg_last_30_days_json_file_path = days_path,
                         rg_last_12_months_json_file_path = months_path,
                         rg_news_file_path = news_path,
                         report_cfg = s\<rparr>))))"

text \<open>
  \<open>_load_data_file\<close>: the text of a file (for JSON, parsed and printed again), \<open>None\<close> on
  any failure, the path \<open>None\<close> included.
\<close>

definition load_data_file :: "env \<Rightarrow> string option \<Rightarrow> bool \<Rightarrow> string option io" where
  "load_data_file env file_path is_json =
     io_bind (io_emit (FileRead file_path)) (\<lambda>_.
       io_return (case file_path of None \<Rightarrow> None | Some p \<Rightarrow> read_text env is_json p))"

definition cfg_path_opt :: "cfgval \<Rightarrow> string option" where
  "cfg_path_opt v = (case v of CStr s \<Rightarrow> Some s | _ \<Rightarrow> None)"

text \<open>
  \<open>_build_prompt\<close>. The content for the daily chart is read from the twelve-months file,
  as the source does; the thirty-days file is never opened.
\<close>

definition build_prompt :: "env \<Rightarrow> ReportGeneratorTool \<Rightarrow> string option io" where
  "build_prompt env tool =
     io_bind (getkey (report_cfg tool) ''prompt_file'') (\<lambda>pf.
     io_bind (load_data_file env (cfg_path_opt pf) False) (\<lambda>prompt_template.
       if \<not> truthy_str prompt_template then io_return None
       else
         io_bind (load_data_file env (rg_metrics_file_path tool) True) (\<lambda>metrics_content.
         io_bind (load_data_file env (rg_last_12_months_json_file_path tool) True) (\<lambda>viz_months_content.
         io_bind (load_data_file env (rg_last_12_months_json_file_path tool) True) (\<lambda>viz_days_content.
         io_bind (load_data_file env (rg_news_file_path tool) True) (\<lambda>news_content.
           if \<not> (truthy_str metrics_content \<and> truthy_str viz_months_content
                  \<and> truthy_str viz_days_content \<and> truthy_str news_content)
           then io_return None
           else
             io_return
               (Some (str_replace ''json_noticias'' (the news_content)
                       (str_replace ''json_grafico_dias'' (the viz_days_content)
                         (str_replace ''json_grafico_meses'' (the viz_months_content)
                           (str_replace ''json_metricas'' (the metrics_content)
                             (the prompt_template))))))))))))"

text \<open>\<open>_generate_report\<close>: any failure of the request, a missing setting included, gives \<open>None\<close>.\<close>

definition generate_report :: "env \<Rightarrow> ReportGeneratorTool \<Rightarrow> string \<Rightarrow> string option io" where
  "generate_report env tool final_prompt =
     io_catch_all
       (io_bind (getkey (report_cfg tool) ''model'') (\<lambda>_.
        io_bind (getkey (report_cfg tool) ''system_prompt'') (\<lambda>_.
        io_bind (getkey (report_cfg tool) ''temperature'') (\<lambda>_.
        io_bind (getkey (report_cfg tool) ''max_tokens'') (\<lambda>_.
        io_bind (io_emit (ApiCall ''openai'')) (\<lambda>_.
          io_return (chat_completion env final_prompt)))))))
       None"

definition save_report :: "env \<Rightarrow> ReportGeneratorTool \<Rightarrow> string option io" where
  "save_report env tool =
     io_bind (getpath2 (report_cfg tool) ''output_dir'' ''output_filename'') (\<lambda>dir_and_name.
     let output_dir = fst dir_and_name;
         output_file = path_join output_dir (snd dir_and_name) in
     io_catch_all
       (io_bind (makedirs env output_dir) (\<lambda>_.
        io_bind (try_write env output_file) (\<lambda>ok.
          io_return (if ok then Some output_file else None))))
       None)"

definition report_save_metadata :: "env \<Rightarrow> ReportGeneratorTool \<Rightarrow> unit io" where
  "report_save_metadata env tool =
     io_bind (getpath (report_cfg tool) ''output_dir'') (\<lambda>dest_folder.
     io_bind (try_write env (path_join dest_folder ''metadata.json'')) (\<lambda>_. io_return ()))"

definition run_report_process :: "env \<Rightarrow> ReportGeneratorTool \<Rightarrow> string option io" where
  "run_report_process env tool =
     io_bind (build_prompt env tool) (\<lambda>final_prompt.
       if truthy_str final_prompt then
         io_bind (generate_report env tool (the final_prompt)) (\<lambda>report_content.
           if truthy_str report_content then
             io_bind (save_report env tool) (\<lambda>report_path.
               if truthy_str report_path
               then io_bind (report_save_metadata env tool) (\<lambda>_. io_return report_path)
               else io_return None)
           else io_return None)
       else io_return None)"

definition ReportGeneratorAgent_init ::
  "env \<Rightarrow> string option \<Rightarrow> string option \<Rightarrow> string option \<Rightarrow> string option \<Rightarrow> ReportGeneratorTool io" where
  "ReportGeneratorAgent_init env metrics_path days_path months_path news_path =
     ReportGeneratorTool_init env metrics_path days_path months_path news_path"

definition ReportGeneratorAgent_run :: "env \<Rightarrow> ReportGeneratorTool \<Rightarrow> pydict option io" where
  "ReportGeneratorAgent_run env tool =
     io_bind (run_report_process env tool) (\<lambda>report_path.
       if truthy_str report_path then io_return (Some [(''report_file_path'', report_path)])
       else io_return None)"

section \<open>Stage 7: final report\<close>

record FinalReportGeneratorTool =
  fr_metadata_file_path :: "string option"
  fr_periods_file_path :: "string option"
  fr_metrics_file_path :: "string option"
  fr_report_file_path :: "string option"
  fr_last_30_days_plot_file_path :: "string option"
  fr_last_12_months_plot_file_path :: "string option"
  paths :: "(string \<times> string) list"

definition FinalReportGeneratorTool_init ::
  "env \<Rightarrow> string option \<Rightarrow> string option \<Rightarrow> string option \<Rightarrow> string option
     \<Rightarrow> string option \<Rightarrow> string option \<Rightarrow> FinalReportGeneratorTool io" where
  "FinalReportGeneratorTool_init env metadata_path periods_path metrics_path report_path
       plot30_path plot12_path =
     config_guard ''Erro de configuracao impede a continuacao.''
       (io_bind (load_config env) (\<lambda>config.
        io_bind (getsection config ''final_report_config'') (\<lambda>s.
        io_bind (getkey s ''paths'') (\<lambda>ps.
          case ps of
            CDict d \<Rightarrow>
              io_return \<lparr>fr_metadata_file_path = metadata_path,
                         fr_periods_file_path = periods_path,
                         fr_metrics_file_path = metrics_path,
                         fr_report_file_path = report_path,
                         fr_last_30_days_plot_file_path = plot30_path,
                         fr_last_12_months_plot_file_path = plot12_path,
                         paths = map (\<lambda>(k, v). (k, pathlib_join (cwd env) v)) d\<rparr>
          | _ \<Rightarrow> io_raise (''AttributeError'', ''items'')))))"

text \<open>
  \<open>_load_json\<close> and \<open>_read_text\<close> raise when the file cannot be read (\<open>open(None)\<close> raises
  TypeError).
\<close>

definition read_or_raise :: "env \<Rightarrow> bool \<Rightarrow> string option \<Rightarrow> string io" where
  "read_or_raise env is_json file_path =
     io_bind (io_emit (FileRead file_path)) (\<lambda>_.
       case file_path of
         None \<Rightarrow> io_raise (''TypeError'', ''expected str, bytes or os.PathLike object, not NoneType'')
       | Some p \<Rightarrow>
           (case read_text env is_json p of
              None \<Rightarrow> io_raise (''FileNotFoundError'', p)
            | Some t \<Rightarrow> io_return t))"

definition load_json :: "env \<Rightarrow> string option \<Rightarrow> json io" where
  "load_json env file_path =
     io_bind (io_emit (FileRead file_path)) (\<lambda>_.
       case file_path of
         None \<Rightarrow> io_raise (''TypeError'', ''expected str, bytes or os.PathLike object, not NoneType'')
       | Some p \<Rightarrow> io_lift (read_json env p))"

text \<open>
  The new text of a replacement is \<open>Some\<close> of a string, or \<open>None\<close> for a value that is not a
  string. \<open>metadata.get(k, "")\<close> and \<open>.items()\<close> need an object; \<open>str(value)\<close> is always text.
\<close>

definition as_text :: "json \<Rightarrow> string option" where
  "as_text j = (case j of JStr t \<Rightarrow> Some t | _ \<Rightarrow> None)"

definition py_str :: "json \<Rightarrow> string" where
  "py_str j = (case j of JStr t \<Rightarrow> t | JObj d t \<Rightarrow> t | JOther t \<Rightarrow> t)"

definition json_get :: "json \<Rightarrow> string \<Rightarrow> string option io" where
  "json_get j k =
     (case j of
        JObj d t \<Rightarrow> io_return (case map_of d k of None \<Rightarrow> Some [] | Some v \<Rightarrow> as_text v)
      | _ \<Rightarrow> io_raise (''AttributeError'', ''get''))"

definition json_items :: "json \<Rightarrow> (string \<times> json) list io" where
  "json_items j =
     (case j of JObj d t \<Rightarrow> io_return d | _ \<Rightarrow> io_raise (''AttributeError'', ''items''))"

text \<open>The two nested loops that add \<open>[category.key]\<close> with the text of each value.\<close>

fun add_entries :: "string \<Rightarrow> (string \<times> json) list \<Rightarrow> pydict \<Rightarrow> pydict" where
  "add_entries category [] replacements = replacements"
| "add_entries category ((key, v) # rest) replacements =
     add_entries category rest
       (setitem replacements (''['' @ category @ ''.'' @ key @ '']'') (Some (py_str v)))"

fun add_groups :: "(string \<times> json) list \<Rightarrow> pydict \<Rightarrow> pydict io" where
  "add_groups [] replacements = io_return replacements"
| "add_groups ((category, vals) # rest) replacements =
     io_bind (json_items vals) (\<lambda>entries.
       add_groups rest (add_entries category entries replacements))"

definition get_replacements :: "env \<Rightarrow> FinalReportGeneratorTool \<Rightarrow> pydict io" where
  "get_replacements env tool =
     io_bind (load_json env (fr_metadata_file_path tool)) (\<lambda>metadata.
     io_bind (load_json env (fr_metrics_file_path tool)) (\<lambda>metrics.
     io_bind (load_json env (fr_periods_file_path tool)) (\<lambda>periods.
     io_bind (read_or_raise env False (fr_report_file_path tool)) (\<lambda>report_md_content.
     io_bind (json_get metadata ''update_date'') (\<lambda>update_date.
     io_bind (json_get metadata ''date_last_file'') (\<lambda>date_last_file.
     io_bind (json_items metrics) (\<lambda>metrics_items.
     io_bind (add_groups metrics_items
                [(''[raw_auto_metadata.update_date]'', update_date),
                 (''[raw_auto_metadata.date_last_file]'', date_last_file),
                 (''[path.report.md]'', Some report_md_content),
                 (''[path.last_12_months.png]'', fr_last_12_months_plot_file_path tool),
                 (''[path.last_30_days.png]'', fr_last_30_days_plot_file_path tool)])
       (\<lambda>replacements.
     io_bind (json_items periods) (\<lambda>periods_items.
       add_groups periods_items replacements)))))))))"

text \<open>
  The replacement loop: \<open>str.replace\<close> with a new text that is not a string raises
  TypeError.
\<close>

fun apply_replacements :: "(string \<times> string option) list \<Rightarrow> string \<Rightarrow> string io" where
  "apply_replacements [] content = io_return content"
| "apply_replacements ((placeholder, new_text) # rest) content =
     (case new_text of
        None \<Rightarrow> io_raise (''TypeError'', ''replace() argument 2 must be str, not None'')
      | Some v \<Rightarrow> apply_replacements rest (str_replace placeholder v content))"

definition lookup_path :: "FinalReportGeneratorTool \<Rightarrow> string \<Rightarrow> string io" where
  "lookup_path tool k =
     (case map_of (paths tool) k of None \<Rightarrow> io_raise (''KeyError'', k) | Some p \<Rightarrow> io_return p)"

definition write_text :: "env \<Rightarrow> string \<Rightarrow> unit io" where
  "write_text env p =
     io_bind (try_write env p) (\<lambda>ok. if ok then io_return () else io_raise (''OSError'', p))"

definition gerar_pdf_de_html :: "env \<Rightarrow> unit io" where
  "gerar_pdf_de_html env =
     (if pdf_error env then io_raise (''Exception'', ''pdf'')
      else io_emit (FileWritten ''relatorio.pdf''))"

text \<open>\<open>run_generation_process\<close>: its whole body is in a \<open>try\<close> that turns any exception into \<open>None\<close>.\<close>

definition run_generation_process :: "env \<Rightarrow> FinalReportGeneratorTool \<Rightarrow> string option io" where
  "run_generation_process env tool =
     io_catch_all
       (io_bind (lookup_path tool ''template_html'') (\<lambda>template_path.
        io_bind (read_or_raise env False (Some template_path)) (\<lambda>html_template_content.
        io_bind (get_replacements env tool) (\<lambda>replacements.
        io_bind (apply_replacements replacements html_template_content) (\<lambda>final_html_content.
        io_bind (lookup_path tool ''output_html'') (\<lambda>output_path.
        io_bind (write_text env output_path) (\<lambda>_.
        io_bind (gerar_pdf_de_html env) (\<lambda>_.
          io_return (Some output_path)))))))))
       None"

definition FinalReportGeneratorAgent_init ::
  "env \<Rightarrow> string option \<Rightarrow> string option \<Rightarrow> string option \<Rightarrow> string option
     \<Rightarrow> string option \<Rightarrow> string option \<Rightarrow> FinalReportGeneratorTool io" where
  "FinalReportGeneratorAgent_init env metadata_path periods_path metrics_path report_path
       plot30_path plot12_path =
     FinalReportGeneratorTool_init env metadata_path periods_path metrics_path report_path
       plot30_path plot12_path"

definition FinalReportGeneratorAgent_run :: "env \<Rightarrow> FinalReportGeneratorTool \<Rightarrow> pydict option io" where
  "FinalReportGeneratorAgent_run env tool =
     io_bind (run_generation_process env tool) (\<lambda>report_path.
       if truthy_str report_path then io_return (Some [(''final_report_file_path'', report_path)])
       else io_return None)"

section \<open>The workflow graph\<close>

text \<open>
  A node receives the state dictionary, mutates it in place and returns it. Its outcome is
  the exception it raised (if any), the content of the dictionary when it returned or
  raised, and the events so far.
\<close>

type_synonym node = "pydict \<Rightarrow> event list \<Rightarrow> pyexc option \<times> pydict \<times> event list"

text \<open>The statements \<open>state[k] = result[k]\<close> of a node, in order.\<close>

fun copy_keys :: "pydict option \<Rightarrow> string list \<Rightarrow> pydict \<Rightarrow> pyexc option \<times> pydict" where
  "copy_keys result [] state = (None, state)"
| "copy_keys result (k # ks) state =
     (case getitem result k of
        Inl e \<Rightarrow> (Some e, state)
      | Inr v \<Rightarrow> copy_keys result ks (setitem state k v))"

definition node_body :: "pydict option io \<Rightarrow> string list \<Rightarrow> node" where
  "node_body agent ks state evs =
     (case agent evs of
        (Inl e, evs') \<Rightarrow> (Some e, state, evs')
      | (Inr result, evs') \<Rightarrow>
          (case copy_keys result ks state of (x, state') \<Rightarrow> (x, state', evs')))"

text \<open>Each node builds its agent from the state and runs it.\<close>

definition data_downloader_call :: "env \<Rightarrow> pydict \<Rightarrow> pydict option io" where
  "data_downloader_call env state =
     io_bind (DataDownloaderAgent_init env) (DataDownloaderAgent_run env)"

definition node_data_downloader :: "env \<Rightarrow> node" where
  "node_data_downloader env state =
     node_body (data_downloader_call env state)
       [''downloaded_file_path'', ''metadata_file_path''] state"

definition data_preprocessor_call :: "env \<Rightarrow> pydict \<Rightarrow> pydict option io" where
  "data_preprocessor_call env state =
     io_bind (DataPreprocessorAgent_init env (dict_get state ''downloaded_file_path''))
       (DataPreprocessorAgent_run env)"

definition node_data_preprocessor :: "env \<Rightarrow> node" where
  "node_data_preprocessor env state =
     node_body (data_preprocessor_call env state) [''processed_data_file_path''] state"

definition metrics_calculator_call :: "env \<Rightarrow> pydict \<Rightarrow> pydict option io" where
  "metrics_calculator_call env state =
     io_bind (MetricsCalculatorAgent_init env (dict_get state ''processed_data_file_path''))
       (MetricsCalculatorAgent_run env)"

definition node_metrics_calculator :: "env \<Rightarrow> node" where
  "node_metrics_calculator env state =
     node_body (metrics_calculator_call env state)
       [''periods_file_path'', ''metrics_file_path''] state"

definition visualizations_call :: "env \<Rightarrow> pydict \<Rightarrow> pydict option io" where
  "visualizations_call env state =
     io_bind (VisualizationsAgent_init env (dict_get state ''processed_data_file_path''))
       (VisualizationsAgent_run env)"

definition node_visualizations :: "env \<Rightarrow> node" where
  "node_visualizations env state =
     node_body (visualizations_call env state)
       [''last_30_days_json_file_path'', ''last_30_days_plot_file_path'',
        ''last_12_months_json_file_path'', ''last_12_months_plot_file_path''] state"

definition news_collector_call :: "env \<Rightarrow> pydict \<Rightarrow> pydict option io" where
  "news_collector_call env state =
     io_bind (NewsCollectorAgent_init env) (NewsCollectorAgent_run env)"

definition node_news_collector :: "env \<Rightarrow> node" where
  "node_news_collector env state =
     node_body (news_collector_call env state) [''news_file_path''] state"

definition report_generator_call :: "env \<Rightarrow> pydict \<Rightarrow> pydict option io" where
  "report_generator_call env state =
     io_bind
       (ReportGeneratorAgent_init env
          (dict_get state ''metrics_file_path'')
          (dict_get state ''last_30_days_json_file_path'')
          (dict_get state ''last_12_months_json_file_path'')
          (dict_get state ''news_file_path''))
       (ReportGeneratorAgent_run env)"

definition node_report_generator :: "env \<Rightarrow> node" where
  "node_report_generator env state =
     node_body (report_generator_call env state) [''report_file_path''] state"

definition final_report_generator_call :: "env \<Rightarrow> pydict \<Rightarrow> pydict option io" where
  "final_report_generator_call env state =
     io_bind
       (FinalReportGeneratorAgent_init env
          (dict_get state ''metadata_file_path'')
          (dict_get state ''periods_file_path'')
          (dict_get state ''metrics_file_path'')
          (dict_get state ''report_file_path'')
          (dict_get state ''last_30_days_plot_file_path'')
          (dict_get state ''last_12_months_plot_file_path''))
       (FinalReportGeneratorAgent_run env)"

definition node_final_report_generator :: "env \<Rightarrow> node" where
  "node_final_report_generator env state =
     node_body (final_report_generator_call env state) [''final_report_file_path''] state"

text \<open>
  The graph builder of the third-party library the workflow is written against: named
  nodes, directed edges, an entry point. Executing a compiled graph of plain edges starts at
  the entry point with the given state (the empty dictionary is accepted), calls the node,
  follows the node's outgoing edge and stops at the end marker; an exception raised by a
  node leaves \<open>invoke\<close> at once; the library gives up with a recursion error after its
  default limit of 25 steps. The executor's own record of what it did is a list of steps.
\<close>

record graph =
  channels :: "string list"
  nodes :: "(string \<times> node) list"
  edges :: "(string \<times> string) list"
  entry_point :: string

definition END :: string where
  "END = ''__end__''"

text \<open>\<open>StateGraph(schema)\<close>: the graph has one channel for each key the schema declares.\<close>

definition StateGraph :: "string list \<Rightarrow> graph" where
  "StateGraph schema = \<lparr>channels = schema, nodes = [], edges = [], entry_point = []\<rparr>"

definition add_node :: "string \<Rightarrow> node \<Rightarrow> graph \<Rightarrow> graph" where
  "add_node name f g = g\<lparr>nodes := nodes g @ [(name, f)]\<rparr>"

definition add_edge :: "string \<Rightarrow> string \<Rightarrow> graph \<Rightarrow> graph" where
  "add_edge a b g = g\<lparr>edges := edges g @ [(a, b)]\<rparr>"

definition set_entry_point :: "string \<Rightarrow> graph \<Rightarrow> graph" where
  "set_entry_point name g = g\<lparr>entry_point := name\<rparr>"

datatype step = Invoked string | Completed string

type_synonym outcome = "pyexc option \<times> pydict \<times> event list \<times> step list"

fun invoke_from :: "nat \<Rightarrow> graph \<Rightarrow> string \<Rightarrow> pydict \<Rightarrow> event list \<Rightarrow> step list \<Rightarrow> outcome" where
  "invoke_from 0 g name state evs tr =
     (if name = END then (None, state, evs, tr)
      else (Some (''GraphRecursionError'', ''Recursion limit reached''), state, evs, tr))"
| "invoke_from (Suc fuel) g name state evs tr =
     (if name = END then (None, state, evs, tr)
      else
        (case map_of (nodes g) name of
           None \<Rightarrow> (Some (''ValueError'', name), state, evs, tr)
         | Some f \<Rightarrow>
             (case f state evs of
                (Some e, state', evs') \<Rightarrow> (Some e, state', evs', tr @ [Invoked name])
              | (None, state', evs') \<Rightarrow>
                  (case map_of (edges g) name of
                     None \<Rightarrow> (None, state', evs', tr @ [Invoked name, Completed name])
                   | Some nxt \<Rightarrow>
                       invoke_from fuel g nxt state' evs'
                         (tr @ [Invoked name, Completed name])))))"

definition recursion_limit :: nat where
  "recursion_limit = 25"

text \<open>
  When the last node has returned, the final state is read out of the channels: the keys
  that hold a value, in the order in which the schema declares them. Between nodes the
  order of the keys does not matter, since a node reads the state by key only.
\<close>

definition read_channels :: "string list \<Rightarrow> pydict \<Rightarrow> pydict" where
  "read_channels ks state =
     concat (map (\<lambda>k. case map_of state k of None \<Rightarrow> [] | Some v \<Rightarrow> [(k, v)]) ks)"

definition invoke :: "graph \<Rightarrow> pydict \<Rightarrow> event list \<Rightarrow> outcome" where
  "invoke g initial_state evs =
     (case invoke_from recursion_limit g (entry_point g) initial_state evs [] of
        (None, state, evs', tr) \<Rightarrow> (None, read_channels (channels g) state, evs', tr)
      | (Some e, state, evs', tr) \<Rightarrow> (Some e, state, evs', tr))"

text \<open>The keys declared by \<open>AgentState\<close>.\<close>

definition AgentState_keys :: "string list" where
  "AgentState_keys =
     [''downloaded_file_path'', ''metadata_file_path'', ''processed_data_file_path'',
      ''metrics_file_path'', ''periods_file_path'', ''last_30_days_json_file_path'',
      ''last_12_months_json_file_path'', ''last_30_days_plot_file_path'',
      ''last_12_months_plot_file_path'', ''news_file_path'', ''report_file_path'',
      ''final_report_file_path'']"

definition build_graph :: "env \<Rightarrow> graph" where
  "build_graph env =
     (add_edge ''final_report_generator'' END
     (add_edge ''report_generator'' ''final_report_generator''
     (add_edge ''news_collector'' ''report_generator''
     (add_edge ''visualizations'' ''news_collector''
     (add_edge ''metrics_calculator'' ''visualizations''
     (add_edge ''data_preprocessor'' ''metrics_calculator''
     (add_edge ''data_downloader'' ''data_preprocessor''
     (set_entry_point ''data_downloader''
     (add_node ''final_report_generator'' (node_final_report_generator env)
     (add_node ''report_generator'' (node_report_generator env)
     (add_node ''news_collector'' (node_news_collector env)
     (add_node ''visualizations'' (node_visualizations env)
     (add_node ''metrics_calculator'' (node_metrics_calculator env)
     (add_node ''data_preprocessor'' (node_data_preprocessor env)
     (add_node ''data_downloader'' (node_data_downloader env)
      (StateGraph AgentState_keys))))))))))))))))"

text \<open>
  \<open>FinancialReportWorkflow.run\<close>: invoke the graph on a fresh empty state and return the
  final state; an exception that leaves \<open>invoke\<close> leaves \<open>run\<close> too, and no state is returned.
\<close>

definition workflow_run :: "env \<Rightarrow> event list \<Rightarrow> (pyexc + pydict) \<times> event list \<times> step list" where
  "workflow_run env evs =
     (case invoke (build_graph env) [] evs of
        (None, final_state, evs', tr) \<Rightarrow> (Inr final_state, evs', tr)
      | (Some e, final_state, evs', tr) \<Rightarrow> (Inl e, evs', tr))"

definition raised_of :: "outcome \<Rightarrow> pyexc option" where
  "raised_of r = fst r"

definition state_of :: "outcome \<Rightarrow> pydict" where
  "state_of r = fst (snd r)"

definition events_of :: "outcome \<Rightarrow> event list" where
  "events_of r = fst (snd (snd r))"

definition steps_of :: "outcome \<Rightarrow> step list" where
  "steps_of r = snd (snd (snd r))"

section \<open>The orchestrator as the specification describes it\<close>

text \<open>
  The specification's orchestrator holds an ordered list of stages and calls them in turn,
  passing the state forward and stopping at the first failure. \<open>run_in_order\<close> follows
  these words; \<open>stage_order\<close> and \<open>declared_outputs\<close> are the chain and the output keys of
  the specification's stage table, under the node names of the code.
\<close>

fun run_in_order :: "(string \<times> node) list \<Rightarrow> pydict \<Rightarrow> event list \<Rightarrow> step list \<Rightarrow> outcome" where
  "run_in_order [] state evs tr = (None, state, evs, tr)"
| "run_in_order ((name, f) # rest) state evs tr =
     (case f state evs of
        (Some e, state', evs') \<Rightarrow> (Some e, state', evs', tr @ [Invoked name])
      | (None, state', evs') \<Rightarrow>
          run_in_order rest state' evs' (tr @ [Invoked name, Completed name]))"

definition stage_order :: "string list" where
  "stage_order =
     [''data_downloader'', ''data_preprocessor'', ''metrics_calculator'', ''visualizations'',
      ''news_collector'', ''report_generator'', ''final_report_generator'']"

fun declared_outputs :: "string \<Rightarrow> string list" where
  "declared_outputs name =
     (if name = ''data_downloader'' then [''downloaded_file_path'', ''metadata_file_path'']
      else if name = ''data_preprocessor'' then [''processed_data_file_path'']
      else if name = ''metrics_calculator'' then [''periods_file_path'', ''metrics_file_path'']
      else if name = ''visualizations'' then
        [''last_30_days_json_file_path'', ''last_30_days_plot_file_path'',
         ''last_12_months_json_file_path'', ''last_12_months_plot_file_path'']
      else if name = ''news_collector'' then [''news_file_path'']
      else if name = ''report_generator'' then [''report_file_path'']
      else if name = ''final_report_generator'' then [''final_report_file_path'']
      else [])"

text \<open>The required input keys of the specification's stage table.\<close>

fun required_inputs :: "string \<Rightarrow> string list" where
  "required_inputs name =
     (if name = ''data_preprocessor'' then [''downloaded_file_path'']
      else if name = ''metrics_calculator'' then [''processed_data_file_path'']
      else if name = ''visualizations'' then [''processed_data_file_path'']
      else if name = ''report_generator'' then
        [''metrics_file_path'', ''last_30_days_json_file_path'',
         ''last_12_months_json_file_path'', ''news_file_path'']
      else if name = ''final_report_generator'' then
        [''metadata_file_path'', ''periods_file_path'', ''metrics_file_path'',
         ''report_file_path'', ''last_30_days_plot_file_path'',
         ''last_12_months_plot_file_path'']
      else [])"

section \<open>What the claims speak about\<close>

text \<open>
  The agent call that the node of each name makes, and the keys of the state whose value
  the node's tool opens as a file. Of the other keys a node reads, the report tool stores
  \<open>last_30_days_json_file_path\<close> without opening it, and the final-report tool writes the two
  plot paths into the page as text.
\<close>

definition stage_call :: "env \<Rightarrow> string \<Rightarrow> pydict \<Rightarrow> pydict option io" where
  "stage_call env name =
     (if name = ''data_downloader'' then data_downloader_call env
      else if name = ''data_preprocessor'' then data_preprocessor_call env
      else if name = ''metrics_calculator'' then metrics_calculator_call env
      else if name = ''visualizations'' then visualizations_call env
      else if name = ''news_collector'' then news_collector_call env
      else if name = ''report_generator'' then report_generator_call env
      else final_report_generator_call env)"

fun opened_inputs :: "string \<Rightarrow> string list" where
  "opened_inputs name =
     (if name = ''data_preprocessor'' then [''downloaded_file_path'']
      else if name = ''metrics_calculator'' then [''processed_data_file_path'']
      else if name = ''visualizations'' then [''processed_data_file_path'']
      else if name = ''report_generator'' then
        [''metrics_file_path'', ''last_12_months_json_file_path'', ''news_file_path'']
      else if name = ''final_report_generator'' then
        [''metadata_file_path'', ''periods_file_path'', ''metrics_file_path'',
         ''report_file_path'']
      else [])"

text \<open>
  The six periods the metrics stage compares, the data without a case in any of them, the
  columns the rates read, and a percentage whose division is guarded by a zero check.
\<close>

definition analyzed_windows :: "periods \<Rightarrow> (int \<times> int) list" where
  "analyzed_windows p =
     [(last_30_days_start p, last_30_days_end p),
      (previous_30_days_start p, previous_30_days_end p),
      (last_7_days_start p, last_7_days_end p),
      (previous_7_days_start p, previous_7_days_end p),
      (current_month_start p, current_month_end p),
      (last_month_start p, last_month_end p)]"

definition no_cases_in_periods :: "periods \<Rightarrow> frame \<Rightarrow> bool" where
  "no_cases_in_periods p df =
     (filter (\<lambda>r. list_ex (\<lambda>(s, e). in_period s e r) (analyzed_windows p)) (rows df) = [])"

definition has_rate_columns :: "frame \<Rightarrow> bool" where
  "has_rate_columns df =
     (filter (\<lambda>c. c \<notin> set (columns df))
        [''DATA_NOTIFICACAO'', ''EVOLUCAO'', ''UTI'', ''VACINA'', ''VACINA_COV''] = [])"

definition guarded_percentage :: "nat \<Rightarrow> nat \<Rightarrow> pyfloat" where
  "guarded_percentage n d = (if d = 0 then Fin 0 else Fin (of_nat n / of_nat d * 100))"

definition count_in :: "frame \<Rightarrow> int \<Rightarrow> int \<Rightarrow> string \<Rightarrow> string list \<Rightarrow> nat" where
  "count_in df s e col vals =
     length (filter (\<lambda>r. cell_of r col \<in> set (map Txt vals)) (filter (in_period s e) (rows df)))"

definition zero_metrics :: metrics where
  "zero_metrics =
     [(''increase_rate'',
         [(''last_30_days_vs_previous'', Fin 0), (''last_7_days_vs_previous'', Fin 0),
          (''current_month_vs_previous'', Fin 0)]),
      (''mortality_rate'',
         [(''last_30_days'', Fin 0), (''last_7_days'', Fin 0), (''current_month'', Fin 0)]),
      (''uti_occupancy_rate'',
         [(''last_30_days'', Fin 0), (''last_7_days'', Fin 0), (''current_month'', Fin 0)]),
      (''vaccination_rate_flu'',
         [(''last_30_days'', Fin 0), (''last_7_days'', Fin 0), (''current_month'', Fin 0)]),
      (''vaccination_rate_covid'',
         [(''last_30_days'', Fin 0), (''last_7_days'', Fin 0), (''current_month'', Fin 0)])]"

section \<open>A sample environment\<close>

text \<open>
  A world in which every stage can succeed: a complete configuration, both API keys, a
  writable file system, a download that works on the second day tried, one case notified
  ten days before the clock's instant, a toy calendar of thirty-day months.
\<close>

definition example_preprocessing :: cfgsection where
  "example_preprocessing =
     [(''output_folder'', CStr ''data/processed''), (''output_filename'', CStr ''srag.csv''),
      (''columns_to_keep'', CList [''DT_NOTIFIC'', ''EVOLUCAO'', ''UTI'', ''VACINA'', ''VACINA_COV''])]"

definition example_config :: config where
  "example_config =
     [(''downloader_config'',
         [(''days_to_try'', CInt 3), (''base_url'', CStr ''https://example.org/srag'')]),
      (''file_output'',
         [(''destination_folder'', CStr ''data/raw''), (''destination_filename'', CStr ''srag.csv'')]),
      (''preprocessing'', example_preprocessing),
      (''metrics_calculator'', [(''output_dir'', CStr ''data/metrics'')]),
      (''visualizations_tool'', [(''output_dir'', CStr ''data/viz'')]),
      (''news_config'',
         [(''search_parameters'',
             CDict [(''type'', ''news''), (''time_period'', ''qdr:m''), (''country_code'', ''br''),
                    (''language_code'', ''pt-br''), (''num_results'', ''10'')]),
          (''search_terms'', CStr ''SRAG''),
          (''output_dir'', CStr ''data/news''), (''output_filename'', CStr ''news.json'')]),
      (''report_generator_config'',
         [(''prompt_file'', CStr ''conf/prompt.txt''), (''model'', CStr ''m''),
          (''system_prompt'', CStr ''s''), (''temperature'', CInt 0), (''max_tokens'', CInt 1000),
          (''output_dir'', CStr ''data/report''), (''output_filename'', CStr ''report.md'')]),
      (''final_report_config'',
         [(''paths'', CDict [(''template_html'', ''conf/template.html''),
                             (''output_html'', ''data/final/report.html'')])])]"

definition example_raw_frame :: frame where
  "example_raw_frame =
     \<lparr>columns = [''DT_NOTIFIC'', ''EVOLUCAO'', ''UTI'', ''VACINA'', ''VACINA_COV'', ''SEXO''],
      rows = [[(''DT_NOTIFIC'', Txt ''2024-10-01''), (''EVOLUCAO'', Num 3), (''UTI'', Num 1),
               (''VACINA'', NaN), (''VACINA_COV'', Num 2), (''SEXO'', Txt ''F'')]]\<rparr>"

definition example_frame :: frame where
  "example_frame =
     \<lparr>columns = [''DATA_NOTIFICACAO'', ''EVOLUCAO'', ''UTI'', ''VACINA'', ''VACINA_COV''],
      rows = [[(''DATA_NOTIFICACAO'', Txt ''2024-10-01''), (''EVOLUCAO'', Txt ''OBITO''),
               (''UTI'', Txt ''SIM''), (''VACINA'', Txt ''IGNORADO''), (''VACINA_COV'', Txt ''NAO'')]]\<rparr>"

definition example_env :: env where
  "example_env =
     \<lparr>config_file = Inr example_config,
      environ = [(''SERPER_API_KEY'', ''k1''), (''OPENAI_API_KEY'', ''k2'')],
      now = days 20000,
      month_start = (\<lambda>t. t - t mod days 30),
      dir_creatable = (\<lambda>d. True),
      file_writable = (\<lambda>p. True),
      url_format_error = (\<lambda>u. None),
      http_download = (\<lambda>i. Inr (i = 1)),
      read_csv = (\<lambda>p. if p = ''data/raw/srag.csv'' then Inr example_raw_frame
                       else if p = ''data/processed/srag.csv'' then Inr example_frame
                       else Inl (''FileNotFoundError'', p)),
      fillna_in_place = True,
      parse_date = (\<lambda>s. if s = ''2024-10-01'' then Some (days 19990) else None),
      analysis_error = (\<lambda>name. None),
      plot_error = (\<lambda>name. None),
      serper_wrapper_error = (\<lambda>d. None),
      serper_response = Inr [(''news'', [[(''title'', ''t''), (''snippet'', ''s'')]])],
      read_text = (\<lambda>is_json p. Some ''json_metricas''),
      read_json = (\<lambda>p. Inr (JObj [(''last_30_days'', JObj [(''mortality_rate'', JOther ''0.0'')] ''{...}'')] ''{...}'')),
      chat_completion = (\<lambda>prompt. Some ''Report''),
      cwd = ''/app'',
      pdf_error = False\<rparr>"

text \<open>The same world with no link that downloads, and with one unwritable metadata file.\<close>

definition offline_env :: env where
  "offline_env = example_env\<lparr>http_download := (\<lambda>i. Inr False)\<rparr>"

definition metadata_unwritable_env :: env where
  "metadata_unwritable_env =
     example_env\<lparr>file_writable := (\<lambda>p. p \<noteq> ''data/processed/metadata.json'')\<rparr>"

text \<open>A frame whose only case was notified long before every analysed period.\<close>

definition stale_frame :: frame where
  "stale_frame =
     \<lparr>columns = [''DATA_NOTIFICACAO'', ''EVOLUCAO'', ''UTI'', ''VACINA'', ''VACINA_COV''],
      rows = [[(''DATA_NOTIFICACAO'', Stamp (days 100)), (''EVOLUCAO'', Txt ''OBITO''),
               (''UTI'', Txt ''SIM''), (''VACINA'', Txt ''SIM''), (''VACINA_COV'', Txt ''NAO'')]]\<rparr>"

text \<open>The same frame after a preprocessing that was configured to drop the \<open>UTI\<close> column.\<close>

definition stale_frame_without_uti :: frame where
  "stale_frame_without_uti =
     \<lparr>columns = [''DATA_NOTIFICACAO'', ''EVOLUCAO'', ''VACINA'', ''VACINA_COV''],
      rows = [[(''DATA_NOTIFICACAO'', Stamp (days 100)), (''EVOLUCAO'', Txt ''OBITO''),
               (''VACINA'', Txt ''SIM''), (''VACINA_COV'', Txt ''NAO'')]]\<rparr>"

text \<open>The state the sample environment's run ends with.\<close>

definition example_final_state :: pydict where
  "example_final_state =
     [(''downloaded_file_path'', Some ''data/raw/srag.csv''),
      (''metadata_file_path'', Some ''data/raw/metadata.json''),
      (''processed_data_file_path'', Some ''data/processed/srag.csv''),
      (''metrics_file_path'', Some ''data/metrics/metrics.json''),
      (''periods_file_path'', Some ''data/metrics/periods.json''),
      (''last_30_days_json_file_path'', Some ''data/viz/last_30_days.json''),
      (''last_12_months_json_file_path'', Some ''data/viz/last_12_months.json''),
      (''last_30_days_plot_file_path'', Some ''data/viz/last_30_days.png''),
      (''last_12_months_plot_file_path'', Some ''data/viz/last_12_months.png''),
      (''news_file_path'', Some ''data/news/news.json''),
      (''report_file_path'', Some ''data/report/report.md''),
      (''final_report_file_path'', Some ''/app/data/final/report.html'')]"

text \<open>
  An action whose result and new events do not depend on the events already recorded, and
  the same for a node.
\<close>

definition history_free :: "'a io \<Rightarrow> bool" where
  "history_free m = (\<exists>r new. \<forall>evs. m evs = (r, evs @ new))"

definition node_history_free :: "node \<Rightarrow> bool" where
  "node_history_free f = (\<forall>s. \<exists>x s' new. \<forall>evs. f s evs = (x, s', evs @ new))"

section \<open>Basic facts\<close>

lemmas io_defs = io_return_def io_raise_def io_lift_def io_emit_def io_bind_def io_catch_all_def

lemma io_bind_InrD:
  "io_bind m f evs = (Inr y, evs') \<Longrightarrow> \<exists>x evs1. m evs = (Inr x, evs1) \<and> f x evs1 = (Inr y, evs')"
  by (auto simp: io_bind_def split: prod.splits sum.splits)

lemma io_return_InrD: "io_return x evs = (Inr y, evs') \<Longrightarrow> y = x \<and> evs' = evs"
  by (simp add: io_return_def)

lemma py_round2_zero: "py_round2 (Fin 0) = Fin 0"
  by (simp add: py_round2_def round_half_even_def)

lemma py_round2_inf: "py_round2 PosInf = PosInf"
  by (simp add: py_round2_def)

section \<open>The rates of the metrics stage\<close>

text \<open>
  Each rate is a guarded percentage of two counts: the division happens only when the
  denominator is not zero, whatever its size.
\<close>

lemma disj_conj_absorb: "((A \<or> B) \<and> A) = A" "((A \<or> B) \<and> B) = B"
  by blast+

lemma mortality_rate_value:
  assumes "''DATA_NOTIFICACAO'' \<in> set (columns df)" and "''EVOLUCAO'' \<in> set (columns df)"
  shows "calculate_mortality_rate df s e evs =
           (Inr (guarded_percentage (count_in df s e ''EVOLUCAO'' [''OBITO''])
                   (count_in df s e ''EVOLUCAO'' [''CURA'', ''OBITO''])), evs)"
  using assms
  by (simp add: calculate_mortality_rate_def need_column_def io_defs Let_def
      guarded_percentage_def count_in_def disj_conj_absorb)

lemma uti_occupancy_rate_value:
  assumes "''DATA_NOTIFICACAO'' \<in> set (columns df)" and "''UTI'' \<in> set (columns df)"
  shows "calculate_uti_occupancy_rate df s e evs =
           (Inr (guarded_percentage (count_in df s e ''UTI'' [''SIM''])
                   (count_in df s e ''UTI'' [''SIM'', ''NAO''])), evs)"
  using assms
  by (simp add: calculate_uti_occupancy_rate_def need_column_def io_defs Let_def
      guarded_percentage_def count_in_def disj_conj_absorb)

lemma vaccination_rate_value:
  assumes "''DATA_NOTIFICACAO'' \<in> set (columns df)" and "col \<in> set (columns df)"
  shows "calculate_vaccination_rate df s e col evs =
           (Inr (guarded_percentage (count_in df s e col [''SIM''])
                   (count_in df s e col [''SIM'', ''NAO''])), evs)"
  using assms
  by (simp add: calculate_vaccination_rate_def need_column_def io_defs Let_def
      guarded_percentage_def count_in_def disj_conj_absorb)

lemma increase_rate_value:
  assumes "''DATA_NOTIFICACAO'' \<in> set (columns df)"
  shows "calculate_increase_rate df cs ce ps pe evs =
           (Inr (let current_cases = length (filter (in_period cs ce) (rows df));
                     previous_cases = length (filter (in_period ps pe) (rows df))
                 in if previous_cases = 0 then (if current_cases > 0 then PosInf else Fin 0)
                    else Fin ((of_int (int current_cases - int previous_cases)
                                / of_nat previous_cases) * 100)), evs)"
  using assms
  by (simp add: calculate_increase_rate_def need_column_def io_defs Let_def)

lemma no_cases_window:
  assumes "no_cases_in_periods p df" and "(s, e) \<in> set (analyzed_windows p)"
  shows "filter (in_period s e) (rows df) = []"
proof -
  have "\<not> in_period s e r" if "r \<in> set (rows df)" for r
  proof
    assume "in_period s e r"
    with assms(2) have "list_ex (\<lambda>(s, e). in_period s e r) (analyzed_windows p)"
      by (auto simp: list_ex_iff)
    with that have "r \<in> set (filter (\<lambda>r. list_ex (\<lambda>(s, e). in_period s e r) (analyzed_windows p)) (rows df))"
      by simp
    with assms(1) show False
      by (simp add: no_cases_in_periods_def)
  qed
  then show ?thesis
    by (simp add: filter_empty_conv)
qed

lemma over_windows_zero:
  assumes "\<And>s e evs. (s, e) \<in> set (analyzed_windows p) \<Longrightarrow> rate s e evs = (Inr (Fin 0), evs)"
  shows "over_windows p rate evs =
           (Inr [(''last_30_days'', Fin 0), (''last_7_days'', Fin 0), (''current_month'', Fin 0)], evs)"
  by (simp add: over_windows_def io_bind_def io_return_def assms analyzed_windows_def py_round2_zero)

text \<open>
  Claim C8, for data that has the columns the rates read. On such data with no case in
  any analysed period, every rate of the metrics stage is computed without an exception and is zero:
  the whole metrics dictionary is \<open>zero_metrics\<close>. Each of the mortality, UTI occupancy and
  vaccination rates is, for any period, the guarded percentage of two counts, whose zero
  denominator gives 0.0; no other threshold on the number of records is applied.
\<close>

theorem metrics_all_zero_without_cases:
  assumes cols: "has_rate_columns df"
    and none: "no_cases_in_periods (periods_analyzed env) df"
  shows "compute_metrics (periods_analyzed env) df evs = (Inr zero_metrics, evs)
       \<and> calculate_mortality_rate df s e evs =
           (Inr (guarded_percentage (count_in df s e ''EVOLUCAO'' [''OBITO''])
                   (count_in df s e ''EVOLUCAO'' [''CURA'', ''OBITO''])), evs)
       \<and> calculate_uti_occupancy_rate df s e evs =
           (Inr (guarded_percentage (count_in df s e ''UTI'' [''SIM''])
                   (count_in df s e ''UTI'' [''SIM'', ''NAO''])), evs)
       \<and> calculate_vaccination_rate df s e ''VACINA'' evs =
           (Inr (guarded_percentage (count_in df s e ''VACINA'' [''SIM''])
                   (count_in df s e ''VACINA'' [''SIM'', ''NAO''])), evs)
       \<and> calculate_vaccination_rate df s e ''VACINA_COV'' evs =
           (Inr (guarded_percentage (count_in df s e ''VACINA_COV'' [''SIM''])
                   (count_in df s e ''VACINA_COV'' [''SIM'', ''NAO''])), evs)
       \<and> guarded_percentage n 0 = Fin 0"
proof -
  let ?p = "periods_analyzed env"
  from cols have c: "''DATA_NOTIFICACAO'' \<in> set (columns df)" "''EVOLUCAO'' \<in> set (columns df)"
    "''UTI'' \<in> set (columns df)" "''VACINA'' \<in> set (columns df)" "''VACINA_COV'' \<in> set (columns df)"
    by (simp_all add: has_rate_columns_def split: if_splits)
  have empty: "filter (in_period s e) (rows df) = []" if "(s, e) \<in> set (analyzed_windows ?p)" for s e
    using none that by (rule no_cases_window)
  have cnt: "count_in df s e col vals = 0" if "(s, e) \<in> set (analyzed_windows ?p)" for s e col vals
    using empty [OF that] by (simp add: count_in_def)
  have mort: "over_windows ?p (calculate_mortality_rate df) evs =
      (Inr [(''last_30_days'', Fin 0), (''last_7_days'', Fin 0), (''current_month'', Fin 0)], evs)"
    by (rule over_windows_zero) (simp add: mortality_rate_value c cnt guarded_percentage_def)
  have uti: "over_windows ?p (calculate_uti_occupancy_rate df) evs =
      (Inr [(''last_30_days'', Fin 0), (''last_7_days'', Fin 0), (''current_month'', Fin 0)], evs)"
    by (rule over_windows_zero) (simp add: uti_occupancy_rate_value c cnt guarded_percentage_def)
  have vac: "over_windows ?p (\<lambda>s e. calculate_vaccination_rate df s e col) evs =
      (Inr [(''last_30_days'', Fin 0), (''last_7_days'', Fin 0), (''current_month'', Fin 0)], evs)"
    if "col \<in> set (columns df)" for col
    by (rule over_windows_zero) (simp add: vaccination_rate_value c that cnt guarded_percentage_def)
  have inc: "calculate_increase_rate df cs ce ps pe evs = (Inr (Fin 0), evs)"
    if "(cs, ce) \<in> set (analyzed_windows ?p)" "(ps, pe) \<in> set (analyzed_windows ?p)" for cs ce ps pe
    by (simp add: increase_rate_value c empty [OF that(1)] empty [OF that(2)])
  have incs: "increase_rates ?p df evs =
      (Inr [(''last_30_days_vs_previous'', Fin 0), (''last_7_days_vs_previous'', Fin 0),
            (''current_month_vs_previous'', Fin 0)], evs)"
    by (simp add: increase_rates_def io_bind_def io_return_def inc analyzed_windows_def py_round2_zero)
  have "compute_metrics ?p df evs = (Inr zero_metrics, evs)"
    by (simp add: compute_metrics_def io_bind_def io_return_def incs mort uti vac c zero_metrics_def)
  then show ?thesis
    by (simp add: mortality_rate_value uti_occupancy_rate_value vaccination_rate_value c
        guarded_percentage_def)
qed

theorem metrics_all_zero_without_cases_witness:
  "has_rate_columns stale_frame \<and> no_cases_in_periods (periods_analyzed example_env) stale_frame
   \<and> compute_metrics (periods_analyzed example_env) stale_frame [] = (Inr zero_metrics, [])
   \<and> calculate_mortality_rate stale_frame (days 50) (days 150) [] = (Inr (Fin 100), [])"
proof -
  have cols: "has_rate_columns stale_frame"
    by (simp add: has_rate_columns_def stale_frame_def)
  have none: "no_cases_in_periods (periods_analyzed example_env) stale_frame"
    by (simp add: no_cases_in_periods_def stale_frame_def periods_analyzed_def example_env_def
        analyzed_windows_def in_period_def cell_of_def days_def Let_def)
  have cnt: "count_in stale_frame (days 50) (days 150) ''EVOLUCAO'' [''OBITO''] = 1"
    "count_in stale_frame (days 50) (days 150) ''EVOLUCAO'' [''CURA'', ''OBITO''] = 1"
    by (simp_all add: count_in_def stale_frame_def in_period_def cell_of_def days_def)
  from metrics_all_zero_without_cases [OF cols none, of "[]" "days 50" "days 150"] cols none cnt
  show ?thesis
    by (simp add: guarded_percentage_def)
qed

text \<open>
  Claim C8, as stated, on data with no case in any analysed period from which the \<open>UTI\<close>
  column was dropped: no rate dictionary is computed; reading the column raises KeyError,
  before the check for an empty selection.
\<close>

theorem metrics_raise_without_uti_column:
  "no_cases_in_periods (periods_analyzed example_env) stale_frame_without_uti
   \<and> \<not> has_rate_columns stale_frame_without_uti
   \<and> compute_metrics (periods_analyzed example_env) stale_frame_without_uti [] =
       (Inl (''KeyError'', ''UTI''), [])"
  by code_simp

text \<open>
  Claim C9. When the previous period holds no case, the increase rate is positive infinity
  if the current period holds at least one case, and 0.0 only if the current period holds
  none either.
\<close>

theorem increase_rate_without_previous_cases:
  assumes "''DATA_NOTIFICACAO'' \<in> set (columns df)"
    and "filter (in_period previous_start previous_end) (rows df) = []"
  shows "calculate_increase_rate df current_start current_end previous_start previous_end evs =
           (Inr (if filter (in_period current_start current_end) (rows df) \<noteq> [] then PosInf else Fin 0),
            evs)"
  using assms by (simp add: increase_rate_value)

theorem increase_rate_without_previous_cases_witness:
  "calculate_increase_rate stale_frame (days 50) (days 150) (days 0) (days 49) [] = (Inr PosInf, [])
   \<and> calculate_increase_rate stale_frame (days 200) (days 300) (days 0) (days 49) [] = (Inr (Fin 0), [])"
proof -
  have col: "''DATA_NOTIFICACAO'' \<in> set (columns stale_frame)"
    by (simp add: stale_frame_def)
  have prev: "filter (in_period (days 0) (days 49)) (rows stale_frame) = []"
    by (simp add: stale_frame_def in_period_def cell_of_def days_def)
  have cur: "filter (in_period (days 50) (days 150)) (rows stale_frame) \<noteq> []"
    "filter (in_period (days 200) (days 300)) (rows stale_frame) = []"
    by (simp_all add: stale_frame_def in_period_def cell_of_def days_def)
  from increase_rate_without_previous_cases [OF col prev, of "days 50" "days 150" "[]"]
    increase_rate_without_previous_cases [OF col prev, of "days 200" "days 300" "[]"] cur
  show ?thesis by simp
qed


section \<open>Nodes: what a failure leaves and what a success adds\<close>

lemma getpath_InrD:
  "getpath cfg k evs = (Inr v, evs') \<Longrightarrow> map_of cfg k = Some (CStr v) \<and> evs' = evs"
  by (auto simp: getpath_def as_path_def getkey_def io_defs split: option.splits cfgval.splits)

lemma getpath2_InrD:
  "getpath2 cfg k1 k2 evs = (Inr ab, evs') \<Longrightarrow>
     map_of cfg k1 = Some (CStr (fst ab)) \<and> map_of cfg k2 = Some (CStr (snd ab)) \<and> evs' = evs"
  by (auto simp: getpath2_def as_path_def getkey_def io_defs split: option.splits cfgval.splits)

lemma try_write_InrD:
  "try_write env p evs = (Inr ok, evs') \<Longrightarrow>
     ok = file_writable env p \<and> evs' = (if ok then evs @ [FileWritten p] else evs)"
  by (auto simp: try_write_def io_defs split: if_splits)

lemma run_preprocessing_success:
  assumes "run_preprocessing_process env tool evs = (Inr (Some d), evs')"
  shows "\<exists>folder fname.
           map_of (proc_cfg tool) ''output_folder'' = Some (CStr folder)
         \<and> map_of (proc_cfg tool) ''output_filename'' = Some (CStr fname)
         \<and> d = [(''processed_data_file_path'', Some (path_join folder fname))]
         \<and> file_writable env (path_join folder fname)
         \<and> file_writable env (path_join folder ''metadata.json'')
         \<and> FileWritten (path_join folder fname) \<in> set evs'
         \<and> FileWritten (path_join folder ''metadata.json'') \<in> set evs'"
  using assms
  unfolding run_preprocessing_process_def save_metadata_def save_processed_data_def
  apply (clarsimp simp: Let_def dest!: io_bind_InrD split: option.splits if_splits)
  apply (auto dest!: getpath2_InrD getpath_InrD io_return_InrD try_write_InrD io_bind_InrD
      simp: io_catch_all_def split: prod.splits sum.splits if_splits)
  done

lemma getitem_Some_Inr: "k \<in> fst ` set d \<Longrightarrow> \<exists>v. getitem (Some d) k = Inr v"
  by (cases "map_of d k") (auto simp: getitem_def map_of_eq_None_iff)

lemma copy_keys_complete:
  "set ks \<subseteq> fst ` set d \<Longrightarrow> fst (copy_keys (Some d) ks state) = None"
proof (induction ks arbitrary: state)
  case Nil
  then show ?case by simp
next
  case (Cons k ks)
  then obtain v where "getitem (Some d) k = Inr v"
    using getitem_Some_Inr [of k d] by auto
  with Cons show ?case by simp
qed

lemma copy_keys_None:
  "copy_keys None (k # ks) state =
     (Some (''TypeError'', ''NoneType object is not subscriptable''), state)"
  by (simp add: getitem_def)

lemma node_body_failure_frame:
  assumes shape: "\<And>d evs1. agent evs = (Inr (Some d), evs1) \<Longrightarrow> map fst d = ks"
    and fail: "node_body agent ks state evs = (Some e, state', evs')"
  shows "state' = state"
proof (cases "agent evs")
  case (Pair r evs1)
  show ?thesis
  proof (cases r)
    case (Inl x)
    with Pair fail show ?thesis by (simp add: node_body_def)
  next
    case (Inr result)
    show ?thesis
    proof (cases result)
      case None
      with Pair Inr fail show ?thesis
        by (cases ks) (auto simp: node_body_def getitem_def)
    next
      case (Some d)
      with Pair Inr have "map fst d = ks" by (auto dest: shape)
      then have "fst (copy_keys (Some d) ks state) = None"
        by (intro copy_keys_complete) auto
      with Pair Inr Some fail show ?thesis
        by (auto simp: node_body_def split: prod.splits)
    qed
  qed
qed

lemma try_links_keys:
  "try_links env dest full links evs = (Inr (Some d), evs') \<Longrightarrow>
     map fst d = [''downloaded_file_path'', ''metadata_file_path'']"
proof (induction links arbitrary: evs)
  case Nil
  then show ?case by (simp add: io_return_def)
next
  case (Cons i rest)
  from Cons.prems obtain ok evs1 where
    a: "download_and_save_file env i full evs = (Inr ok, evs1)" and
    b: "(if ok then
           io_bind (downloader_save_metadata env dest) (\<lambda>metadata_path.
             io_return (Some [(''downloaded_file_path'', Some full),
                              (''metadata_file_path'', metadata_path)]))
         else try_links env dest full rest) evs1 = (Inr (Some d), evs')"
    by (auto dest!: io_bind_InrD)
  show ?case
  proof (cases ok)
    case True
    with b show ?thesis by (auto dest!: io_bind_InrD io_return_InrD)
  next
    case False
    with b Cons.IH show ?thesis by simp
  qed
qed

lemma data_downloader_call_keys:
  "data_downloader_call env state evs = (Inr (Some d), evs') \<Longrightarrow>
     map fst d = [''downloaded_file_path'', ''metadata_file_path'']"
  unfolding data_downloader_call_def DataDownloaderAgent_run_def run_download_process_def
  by (auto dest!: io_bind_InrD io_return_InrD dest: try_links_keys split: if_splits)

lemma data_preprocessor_call_keys:
  "data_preprocessor_call env state evs = (Inr (Some d), evs') \<Longrightarrow>
     map fst d = [''processed_data_file_path'']"
  unfolding data_preprocessor_call_def DataPreprocessorAgent_run_def run_preprocessing_process_def
  by (auto simp: Let_def dest!: io_bind_InrD io_return_InrD split: if_splits option.splits)

lemma metrics_calculator_call_keys:
  "metrics_calculator_call env state evs = (Inr (Some d), evs') \<Longrightarrow>
     map fst d = [''periods_file_path'', ''metrics_file_path'']"
  unfolding metrics_calculator_call_def MetricsCalculatorAgent_run_def run_metrics_calculation_def
  by (auto simp: Let_def dest!: io_bind_InrD io_return_InrD split: if_splits option.splits)

lemma visualizations_call_keys:
  "visualizations_call env state evs = (Inr (Some d), evs') \<Longrightarrow>
     map fst d = [''last_30_days_json_file_path'', ''last_30_days_plot_file_path'',
        ''last_12_months_json_file_path'', ''last_12_months_plot_file_path'']"
  unfolding visualizations_call_def VisualizationsAgent_run_def run_visualization_process_def
  by (auto simp: Let_def dest!: io_bind_InrD io_return_InrD split: if_splits option.splits)

lemma news_collector_call_keys:
  "news_collector_call env state evs = (Inr (Some d), evs') \<Longrightarrow>
     map fst d = [''news_file_path'']"
  unfolding news_collector_call_def NewsCollectorAgent_run_def
  by (auto simp: Let_def dest!: io_bind_InrD io_return_InrD split: if_splits option.splits)

lemma report_generator_call_keys:
  "report_generator_call env state evs = (Inr (Some d), evs') \<Longrightarrow>
     map fst d = [''report_file_path'']"
  unfolding report_generator_call_def ReportGeneratorAgent_run_def
  by (auto simp: Let_def dest!: io_bind_InrD io_return_InrD split: if_splits option.splits)

lemma final_report_generator_call_keys:
  "final_report_generator_call env state evs = (Inr (Some d), evs') \<Longrightarrow>
     map fst d = [''final_report_file_path'']"
  unfolding final_report_generator_call_def FinalReportGeneratorAgent_run_def
  by (auto simp: Let_def dest!: io_bind_InrD io_return_InrD split: if_splits option.splits)


section \<open>Failures inside a stage\<close>

lemma MetricsCalculatorTool_init_events:
  "snd (MetricsCalculatorTool_init env path evs) = evs @ [ConfigRead]"
  by (auto simp: MetricsCalculatorTool_init_def config_guard_def load_config_def getsection_def io_defs
      split: prod.splits sum.splits option.splits)

lemma MetricsCalculatorTool_init_path:
  "MetricsCalculatorTool_init env path evs = (Inr tool, evs') \<Longrightarrow> mc_processed_data_file_path tool = path"
  by (auto simp: MetricsCalculatorTool_init_def config_guard_def load_config_def getsection_def io_defs
      split: prod.splits sum.splits option.splits if_splits)

text \<open>
  Claim C3, evaluated where no link downloads. The tool reports the failure by returning
  \<open>None\<close> and the agent passes \<open>None\<close> on, as its documentation says; the node then
  subscripts \<open>None\<close>, and the TypeError leaves \<open>invoke\<close> and \<open>run\<close> as a raw exception.
\<close>

theorem download_failure_crashes_run:
  "data_downloader_call offline_env [] [] =
     (Inr None, [ConfigRead, DirMade ''data/raw'', HttpGet 0, HttpGet 1, HttpGet 2])
   \<and> workflow_run offline_env [] =
     (Inl (''TypeError'', ''NoneType object is not subscriptable''),
      [ConfigRead, DirMade ''data/raw'', HttpGet 0, HttpGet 1, HttpGet 2],
      [Invoked ''data_downloader''])"
  by code_simp

lemma DataPreprocessorTool_init_cfg:
  assumes "DataPreprocessorTool_init env path evs = (Inr tool, evs0)"
    and "config_file env = Inr config" and "map_of config ''preprocessing'' = Some sec"
  shows "proc_cfg tool = sec"
  using assms
  by (auto simp: DataPreprocessorTool_init_def config_guard_def load_config_def getsection_def io_defs
      split: prod.splits sum.splits option.splits if_splits)

lemma node_body_success:
  assumes "node_body agent [k] state evs = (None, state', evs')"
  shows "\<exists>d v. agent evs = (Inr (Some d), evs') \<and> map_of d k = Some v \<and> state' = setitem state k v"
  using assms
  by (auto simp: node_body_def getitem_def split: prod.splits sum.splits option.splits)

text \<open>
  Claim C10. With the output folder taken from the configuration: when the metadata file
  cannot be written, the preprocess stage fails and leaves the state as it was, whether or
  not the processed CSV was written; and when the stage succeeds, both the processed file
  and the metadata file were written and \<open>processed_data_file_path\<close> is set to the
  processed file.
\<close>

theorem preprocess_fails_when_metadata_save_fails:
  assumes cfg: "config_file env = Inr config" "map_of config ''preprocessing'' = Some sec"
    "map_of sec ''output_folder'' = Some (CStr folder)"
  shows "(\<not> file_writable env (path_join folder ''metadata.json'') \<longrightarrow>
            (\<exists>e evs'. node_data_preprocessor env state evs = (Some e, state, evs')))
       \<and> (node_data_preprocessor env state evs = (None, state', evs') \<longrightarrow>
            file_writable env (path_join folder ''metadata.json'')
          \<and> FileWritten (path_join folder ''metadata.json'') \<in> set evs'
          \<and> (\<exists>fname. FileWritten (path_join folder fname) \<in> set evs'
                \<and> state' = setitem state ''processed_data_file_path'' (Some (path_join folder fname))))"
proof -
  have success: "file_writable env (path_join folder ''metadata.json'')
          \<and> FileWritten (path_join folder ''metadata.json'') \<in> set evs2
          \<and> (\<exists>fname. FileWritten (path_join folder fname) \<in> set evs2
                \<and> s2 = setitem state ''processed_data_file_path'' (Some (path_join folder fname)))"
    if ok: "node_data_preprocessor env state evs = (None, s2, evs2)" for s2 evs2
  proof -
    from ok obtain d v where call: "data_preprocessor_call env state evs = (Inr (Some d), evs2)"
      and v: "map_of d ''processed_data_file_path'' = Some v"
      and s2: "s2 = setitem state ''processed_data_file_path'' v"
      unfolding node_data_preprocessor_def by (blast dest: node_body_success)
    from call obtain tool evs0 where
      init: "DataPreprocessorTool_init env (dict_get state ''downloaded_file_path'') evs = (Inr tool, evs0)"
      and run: "run_preprocessing_process env tool evs0 = (Inr (Some d), evs2)"
      unfolding data_preprocessor_call_def DataPreprocessorAgent_init_def DataPreprocessorAgent_run_def
      by (auto dest!: io_bind_InrD io_return_InrD split: if_splits)
    from init cfg have "proc_cfg tool = sec"
      by (auto dest: DataPreprocessorTool_init_cfg)
    with run_preprocessing_success [OF run] cfg(3) v s2 show ?thesis
      by auto
  qed
  have failure: "\<exists>e evs'. node_data_preprocessor env state evs = (Some e, state, evs')"
    if nw: "\<not> file_writable env (path_join folder ''metadata.json'')"
  proof -
    obtain x s2 evs2 where r: "node_data_preprocessor env state evs = (x, s2, evs2)"
      by (cases "node_data_preprocessor env state evs") auto
    with success nw obtain e where x: "x = Some e"
      by (cases x) auto
    from r x have "s2 = state"
      unfolding node_data_preprocessor_def
      by (auto elim!: node_body_failure_frame [rotated] dest: data_preprocessor_call_keys)
    with r x show ?thesis by simp
  qed
  from success failure show ?thesis by blast
qed

theorem preprocess_fails_when_metadata_save_fails_witness:
  "config_file metadata_unwritable_env = Inr example_config
   \<and> map_of example_config ''preprocessing'' = Some example_preprocessing
   \<and> map_of example_preprocessing ''output_folder'' = Some (CStr ''data/processed'')
   \<and> \<not> file_writable metadata_unwritable_env (path_join ''data/processed'' ''metadata.json'')
   \<and> node_data_preprocessor metadata_unwritable_env
        [(''downloaded_file_path'', Some ''data/raw/srag.csv'')] []
      = (Some (''TypeError'', ''NoneType object is not subscriptable''),
         [(''downloaded_file_path'', Some ''data/raw/srag.csv'')],
         [ConfigRead, FileRead (Some ''data/raw/srag.csv''), DirMade ''data/processed'',
          FileWritten ''data/processed/srag.csv''])
   \<and> node_data_preprocessor example_env [(''downloaded_file_path'', Some ''data/raw/srag.csv'')] []
      = (None,
         [(''downloaded_file_path'', Some ''data/raw/srag.csv''),
          (''processed_data_file_path'', Some ''data/processed/srag.csv'')],
         [ConfigRead, FileRead (Some ''data/raw/srag.csv''), DirMade ''data/processed'',
          FileWritten ''data/processed/srag.csv'', FileWritten ''data/processed/metadata.json''])
   \<and> file_writable example_env (path_join ''data/processed'' ''metadata.json'')"
proof -
  have c1: "config_file metadata_unwritable_env = Inr example_config"
    and c1': "config_file example_env = Inr example_config"
    by (simp_all add: metadata_unwritable_env_def example_env_def)
  have c2: "map_of example_config ''preprocessing'' = Some example_preprocessing"
    by (simp add: example_config_def)
  have c3: "map_of example_preprocessing ''output_folder'' = Some (CStr ''data/processed'')"
    by (simp add: example_preprocessing_def)
  have nw: "\<not> file_writable metadata_unwritable_env (path_join ''data/processed'' ''metadata.json'')"
    by (simp add: metadata_unwritable_env_def example_env_def path_join_def)
  have bad: "node_data_preprocessor metadata_unwritable_env
        [(''downloaded_file_path'', Some ''data/raw/srag.csv'')] []
      = (Some (''TypeError'', ''NoneType object is not subscriptable''),
         [(''downloaded_file_path'', Some ''data/raw/srag.csv'')],
         [ConfigRead, FileRead (Some ''data/raw/srag.csv''), DirMade ''data/processed'',
          FileWritten ''data/processed/srag.csv''])"
    by code_simp
  have good: "node_data_preprocessor example_env [(''downloaded_file_path'', Some ''data/raw/srag.csv'')] []
      = (None,
         [(''downloaded_file_path'', Some ''data/raw/srag.csv''),
          (''processed_data_file_path'', Some ''data/processed/srag.csv'')],
         [ConfigRead, FileRead (Some ''data/raw/srag.csv''), DirMade ''data/processed'',
          FileWritten ''data/processed/srag.csv'', FileWritten ''data/processed/metadata.json''])"
    by code_simp
  from preprocess_fails_when_metadata_save_fails [OF c1' c2 c3,
      of "[(''downloaded_file_path'', Some ''data/raw/srag.csv'')]" "[]"] good
  have w: "file_writable example_env (path_join ''data/processed'' ''metadata.json'')"
    by blast
  from preprocess_fails_when_metadata_save_fails [OF c1 c2 c3,
      of "[(''downloaded_file_path'', Some ''data/raw/srag.csv'')]" "[]"] nw
  have "\<exists>e evs'. node_data_preprocessor metadata_unwritable_env
        [(''downloaded_file_path'', Some ''data/raw/srag.csv'')] []
      = (Some e, [(''downloaded_file_path'', Some ''data/raw/srag.csv'')], evs')"
    by blast
  with c1 c2 c3 nw bad good w show ?thesis by blast
qed


section \<open>The chain of stages\<close>

lemmas graph_defs = build_graph_def add_node_def add_edge_def set_entry_point_def StateGraph_def

lemma build_graph_nodes:
  "nodes (build_graph env) =
     [(''data_downloader'', node_data_downloader env),
      (''data_preprocessor'', node_data_preprocessor env),
      (''metrics_calculator'', node_metrics_calculator env),
      (''visualizations'', node_visualizations env),
      (''news_collector'', node_news_collector env),
      (''report_generator'', node_report_generator env),
      (''final_report_generator'', node_final_report_generator env)]"
  by (simp add: graph_defs)

lemma build_graph_edges:
  "edges (build_graph env) =
     [(''data_downloader'', ''data_preprocessor''),
      (''data_preprocessor'', ''metrics_calculator''),
      (''metrics_calculator'', ''visualizations''),
      (''visualizations'', ''news_collector''),
      (''news_collector'', ''report_generator''),
      (''report_generator'', ''final_report_generator''),
      (''final_report_generator'', END)]"
  by (simp add: graph_defs)

lemma build_graph_entry: "entry_point (build_graph env) = ''data_downloader''"
  by (simp add: graph_defs)

lemma build_graph_names: "map fst (nodes (build_graph env)) = stage_order"
  by (simp add: build_graph_nodes stage_order_def)

lemma build_graph_channels: "channels (build_graph env) = AgentState_keys"
  by (simp add: graph_defs)

lemma invoke_from_is_run_in_order:
  "invoke_from recursion_limit (build_graph env) (entry_point (build_graph env)) state evs [] =
     run_in_order (nodes (build_graph env)) state evs []"
  unfolding recursion_limit_def build_graph_entry
  by (simp add: build_graph_nodes build_graph_edges END_def eval_nat_numeral
      split: prod.splits option.splits)

lemma invoke_is_run_in_order:
  "invoke (build_graph env) state evs =
     (case run_in_order (nodes (build_graph env)) state evs [] of
        (None, s, evs', tr) \<Rightarrow> (None, read_channels AgentState_keys s, evs', tr)
      | (Some e, s, evs', tr) \<Rightarrow> (Some e, s, evs', tr))"
  unfolding invoke_def invoke_from_is_run_in_order build_graph_channels ..

lemma run_in_order_steps:
  "\<exists>k \<le> length ns.
      steps_of (run_in_order ns s evs tr) =
        tr @ concat (map (\<lambda>n. [Invoked n, Completed n]) (take k (map fst ns)))
           @ (if k < length ns then [Invoked (map fst ns ! k)] else [])
    \<and> (raised_of (run_in_order ns s evs tr) = None \<longleftrightarrow> k = length ns)"
proof (induction ns arbitrary: s evs tr)
  case Nil
  then show ?case by (simp add: steps_of_def raised_of_def)
next
  case (Cons nf rest)
  obtain n f where nf: "nf = (n, f)" by (cases nf)
  obtain x s1 evs1 where r: "f s evs = (x, s1, evs1)" by (cases "f s evs")
  show ?case
  proof (cases x)
    case (Some e)
    with r have "run_in_order ((n, f) # rest) s evs tr = (Some e, s1, evs1, tr @ [Invoked n])"
      by simp
    then show ?thesis
      unfolding nf by (intro exI [of _ 0]) (simp add: steps_of_def raised_of_def)
  next
    case None
    with r have eq: "run_in_order ((n, f) # rest) s evs tr =
        run_in_order rest s1 evs1 (tr @ [Invoked n, Completed n])"
      by simp
    from Cons.IH [of s1 evs1 "tr @ [Invoked n, Completed n]"] obtain k where
      k1: "k \<le> length rest" and
      k2: "steps_of (run_in_order rest s1 evs1 (tr @ [Invoked n, Completed n])) =
         (tr @ [Invoked n, Completed n]) @ concat (map (\<lambda>n. [Invoked n, Completed n]) (take k (map fst rest)))
           @ (if k < length rest then [Invoked (map fst rest ! k)] else [])" and
      k3: "raised_of (run_in_order rest s1 evs1 (tr @ [Invoked n, Completed n])) = None \<longleftrightarrow> k = length rest"
      by auto
    show ?thesis
      unfolding nf eq
      apply (rule exI [of _ "Suc k"])
      apply (simp only: k2 k3)
      using k1 apply simp
      done
  qed
qed


lemma build_graph_length: "length (nodes (build_graph env)) = length stage_order"
  by (simp add: build_graph_nodes stage_order_def)

lemma workflow_run_steps:
  "snd (snd (workflow_run env evs)) = steps_of (run_in_order (nodes (build_graph env)) [] evs [])"
  unfolding workflow_run_def invoke_is_run_in_order steps_of_def
  by (cases "run_in_order (nodes (build_graph env)) [] evs []" rule: prod_cases4)
     (simp split: option.splits)

lemma workflow_run_ok:
  "(\<exists>final. fst (workflow_run env evs) = Inr final) \<longleftrightarrow>
     raised_of (run_in_order (nodes (build_graph env)) [] evs []) = None"
  unfolding workflow_run_def invoke_is_run_in_order raised_of_def
  by (cases "run_in_order (nodes (build_graph env)) [] evs []" rule: prod_cases4)
     (simp split: option.splits)

text \<open>
  Claim C1. In every run the executor's steps are a prefix of the chain download,
  preprocess, metrics, visualise, news, narrative report, final report: for some \<open>k\<close>, the
  first \<open>k\<close> stages were each invoked and completed, one after the other, and if \<open>k\<close> is
  less than seven then stage \<open>k\<close> was invoked and raised, and nothing was invoked after it.
  So a stage is invoked only after every stage before it has completed, and the run
  returns a state exactly when all seven have.
\<close>

theorem stages_run_in_fixed_order:
  "\<exists>k \<le> length stage_order.
      snd (snd (workflow_run env evs)) =
        concat (map (\<lambda>n. [Invoked n, Completed n]) (take k stage_order))
          @ (if k < length stage_order then [Invoked (stage_order ! k)] else [])
    \<and> ((\<exists>final. fst (workflow_run env evs) = Inr final) \<longleftrightarrow> k = length stage_order)"
  using run_in_order_steps [of "nodes (build_graph env)" "[]" evs "[]"]
  unfolding workflow_run_steps workflow_run_ok build_graph_names build_graph_length
  by simp

lemma node_failure_frame:
  assumes "(n, f) \<in> set (nodes (build_graph env))" and "f s evs = (Some e, s', evs')"
  shows "s' = s"
proof -
  from assms(1) consider
      "f = node_data_downloader env" | "f = node_data_preprocessor env"
    | "f = node_metrics_calculator env" | "f = node_visualizations env"
    | "f = node_news_collector env" | "f = node_report_generator env"
    | "f = node_final_report_generator env"
    unfolding build_graph_nodes by auto
  then show ?thesis
  proof cases
    case 1
    with assms(2) show ?thesis unfolding node_data_downloader_def
      by (auto elim!: node_body_failure_frame [rotated] dest: data_downloader_call_keys)
  next
    case 2
    with assms(2) show ?thesis unfolding node_data_preprocessor_def
      by (auto elim!: node_body_failure_frame [rotated] dest: data_preprocessor_call_keys)
  next
    case 3
    with assms(2) show ?thesis unfolding node_metrics_calculator_def
      by (auto elim!: node_body_failure_frame [rotated] dest: metrics_calculator_call_keys)
  next
    case 4
    with assms(2) show ?thesis unfolding node_visualizations_def
      by (auto elim!: node_body_failure_frame [rotated] dest: visualizations_call_keys)
  next
    case 5
    with assms(2) show ?thesis unfolding node_news_collector_def
      by (auto elim!: node_body_failure_frame [rotated] dest: news_collector_call_keys)
  next
    case 6
    with assms(2) show ?thesis unfolding node_report_generator_def
      by (auto elim!: node_body_failure_frame [rotated] dest: report_generator_call_keys)
  next
    case 7
    with assms(2) show ?thesis unfolding node_final_report_generator_def
      by (auto elim!: node_body_failure_frame [rotated] dest: final_report_generator_call_keys)
  qed
qed

lemma run_in_order_failure:
  assumes frame: "\<And>n f s evs e s' evs'. (n, f) \<in> set ns \<Longrightarrow> f s evs = (Some e, s', evs') \<Longrightarrow> s' = s"
    and fail: "run_in_order ns s evs tr = (Some e, s', evs', tr')"
  shows "\<exists>k < length ns. \<exists>evs_k tr_k.
           run_in_order (take k ns) s evs tr = (None, s', evs_k, tr_k)
         \<and> snd (ns ! k) s' evs_k = (Some e, s', evs')
         \<and> tr' = tr_k @ [Invoked (fst (ns ! k))]"
  using assms
proof (induction ns arbitrary: s evs tr)
  case Nil
  then show ?case by simp
next
  case (Cons nf rest)
  obtain n f where nf: "nf = (n, f)" by (cases nf)
  obtain x s1 evs1 where r: "f s evs = (x, s1, evs1)" by (cases "f s evs")
  show ?case
  proof (cases x)
    case (Some e1)
    with r Cons.prems(2) nf have eq: "e1 = e" "s1 = s'" "evs1 = evs'" "tr' = tr @ [Invoked n]"
      by simp_all
    from Cons.prems(1) [of n f s evs e1 s1 evs1] r Some nf have "s1 = s"
      by simp
    with eq r Some nf show ?thesis
      by (intro exI [of _ 0]) simp
  next
    case None
    with r nf Cons.prems(2) have
      "run_in_order rest s1 evs1 (tr @ [Invoked n, Completed n]) = (Some e, s', evs', tr')"
      by simp
    moreover have "\<And>n f s evs e s' evs'. (n, f) \<in> set rest \<Longrightarrow> f s evs = (Some e, s', evs') \<Longrightarrow> s' = s"
      using Cons.prems(1) by (meson list.set_intros(2))
    ultimately obtain k evs_k tr_k where
      k: "k < length rest"
      "run_in_order (take k rest) s1 evs1 (tr @ [Invoked n, Completed n]) = (None, s', evs_k, tr_k)"
      "snd (rest ! k) s' evs_k = (Some e, s', evs')"
      "tr' = tr_k @ [Invoked (fst (rest ! k))]"
      using Cons.IH [of s1 evs1 "tr @ [Invoked n, Completed n]"] by blast
    have "run_in_order (take (Suc k) (nf # rest)) s evs tr = (None, s', evs_k, tr_k)"
      using k(2) r None nf by simp
    with k(1,3,4) show ?thesis
      by (intro exI [of _ "Suc k"]) auto
  qed
qed

lemma run_in_order_success_steps:
  assumes "run_in_order ns s evs tr = (None, s', evs', tr')"
  shows "tr' = tr @ concat (map (\<lambda>n. [Invoked n, Completed n]) (map fst ns))"
proof -
  from run_in_order_steps [of ns s evs tr] assms show ?thesis
    by (auto simp: steps_of_def raised_of_def)
qed

lemma update_fresh: "k \<notin> fst ` set al \<Longrightarrow> AList.update k v al = al @ [(k, v)]"
  by (induction al) auto

lemma copy_keys_success:
  "copy_keys result ks s = (None, s') \<Longrightarrow>
     set (keys s') = set (keys s) \<union> set ks \<and> (\<forall>k. k \<notin> set ks \<longrightarrow> map_of s' k = map_of s k)"
proof (induction ks arbitrary: s)
  case Nil
  then show ?case by simp
next
  case (Cons k ks)
  from Cons.prems obtain v where v: "getitem result k = Inr v"
    and rest: "copy_keys result ks (setitem s k v) = (None, s')"
    by (auto split: sum.splits)
  from Cons.IH [OF rest] show ?case
    by (auto simp: keys_def setitem_def dom_update update_conv')
qed

lemma copy_keys_fresh:
  "distinct (map fst (pre @ d)) \<Longrightarrow> set (map fst d) \<inter> set (map fst s) = {} \<Longrightarrow>
     copy_keys (Some (pre @ d)) (map fst d) s = (None, s @ d)"
proof (induction d arbitrary: pre s)
  case Nil
  then show ?case by simp
next
  case (Cons kv d)
  obtain k v where kv: "kv = (k, v)" by (cases kv)
  from Cons.prems(1) kv have "k \<notin> fst ` set pre" by auto
  then have "map_of pre k = None" by (simp add: map_of_eq_None_iff)
  then have get: "getitem (Some (pre @ kv # d)) k = Inr v"
    by (simp add: getitem_def kv map_add_def)
  from Cons.prems(2) kv have "k \<notin> fst ` set s" by auto
  then have set: "setitem s k v = s @ [(k, v)]"
    by (simp add: setitem_def update_fresh)
  have "copy_keys (Some ((pre @ [kv]) @ d)) (map fst d) (s @ [kv]) = (None, (s @ [kv]) @ d)"
    using Cons.prems kv by (intro Cons.IH) auto
  with get set kv show ?case by simp
qed

lemma node_body_success_append:
  assumes shape: "\<And>d evs1. agent evs = (Inr (Some d), evs1) \<Longrightarrow> map fst d = ks"
    and ks: "distinct ks" "ks \<noteq> []" "set ks \<inter> set (map fst s) = {}"
    and ok: "node_body agent ks s evs = (None, s', evs')"
  shows "\<exists>d. agent evs = (Inr (Some d), evs') \<and> map fst d = ks \<and> s' = s @ d"
proof -
  from ok obtain result where a: "agent evs = (Inr result, evs')"
    and c: "copy_keys result ks s = (None, s')"
    by (auto simp: node_body_def split: prod.splits sum.splits)
  from c ks(2) obtain d where d: "result = Some d"
    by (cases result; cases ks) (auto simp: getitem_def)
  with a have m: "map fst d = ks" by (auto dest: shape)
  with ks have "copy_keys (Some ([] @ d)) (map fst d) s = (None, s @ d)"
    by (intro copy_keys_fresh) auto
  with c d m have "s' = s @ d" by simp
  with a d m show ?thesis by blast
qed

lemma node_body_success_frame:
  assumes "node_body agent ks s evs = (None, s', evs')"
  shows "set (keys s') = set (keys s) \<union> set ks \<and> (\<forall>k. k \<notin> set ks \<longrightarrow> map_of s' k = map_of s k)"
  using assms
  by (auto simp: node_body_def split: prod.splits sum.splits dest!: copy_keys_success)

lemma nodes_as_node_body:
  "node_data_downloader env =
     (\<lambda>state. node_body (data_downloader_call env state) (declared_outputs ''data_downloader'') state)"
  "node_data_preprocessor env =
     (\<lambda>state. node_body (data_preprocessor_call env state) (declared_outputs ''data_preprocessor'') state)"
  "node_metrics_calculator env =
     (\<lambda>state. node_body (metrics_calculator_call env state) (declared_outputs ''metrics_calculator'') state)"
  "node_visualizations env =
     (\<lambda>state. node_body (visualizations_call env state) (declared_outputs ''visualizations'') state)"
  "node_news_collector env =
     (\<lambda>state. node_body (news_collector_call env state) (declared_outputs ''news_collector'') state)"
  "node_report_generator env =
     (\<lambda>state. node_body (report_generator_call env state) (declared_outputs ''report_generator'') state)"
  "node_final_report_generator env =
     (\<lambda>state. node_body (final_report_generator_call env state)
        (declared_outputs ''final_report_generator'') state)"
  by (simp_all add: fun_eq_iff node_data_downloader_def node_data_preprocessor_def
      node_metrics_calculator_def node_visualizations_def node_news_collector_def
      node_report_generator_def node_final_report_generator_def)

lemma node_is_node_body:
  assumes "(name, f) \<in> set (nodes (build_graph env))"
  shows "\<exists>call. f = (\<lambda>state. node_body (call state) (declared_outputs name) state)"
proof -
  from assms have
    "(name = ''data_downloader'' \<and> f = node_data_downloader env)
     \<or> (name = ''data_preprocessor'' \<and> f = node_data_preprocessor env)
     \<or> (name = ''metrics_calculator'' \<and> f = node_metrics_calculator env)
     \<or> (name = ''visualizations'' \<and> f = node_visualizations env)
     \<or> (name = ''news_collector'' \<and> f = node_news_collector env)
     \<or> (name = ''report_generator'' \<and> f = node_report_generator env)
     \<or> (name = ''final_report_generator'' \<and> f = node_final_report_generator env)"
    by (simp add: build_graph_nodes)
  then show ?thesis
    by (elim disjE conjE) (erule ssubst, erule ssubst, rule exI, rule nodes_as_node_body)+
qed

text \<open>
  Claim C4. When a node of the graph returns, the state it returns has the keys of the
  input state and the keys the stage declares as its outputs, no others and none removed,
  and every key that is not among these outputs has the value it had. The nodes are the
  seven stages in chain order, and no key is declared by two stages: each key has one
  writer, and no later stage changes it.
\<close>

theorem stage_adds_exactly_its_outputs:
  assumes "(name, f) \<in> set (nodes (build_graph env))" and "f state evs = (None, state', evs')"
  shows "set (keys state') = set (keys state) \<union> set (declared_outputs name)
       \<and> (\<forall>k. k \<notin> set (declared_outputs name) \<longrightarrow> map_of state' k = map_of state k)
       \<and> map fst (nodes (build_graph env)) = stage_order
       \<and> distinct (concat (map declared_outputs stage_order))"
proof -
  from assms(1) obtain call where "f = (\<lambda>state. node_body (call state) (declared_outputs name) state)"
    by (blast dest: node_is_node_body)
  with assms(2) have "node_body (call state) (declared_outputs name) state evs = (None, state', evs')"
    by simp
  then have "set (keys state') = set (keys state) \<union> set (declared_outputs name)
       \<and> (\<forall>k. k \<notin> set (declared_outputs name) \<longrightarrow> map_of state' k = map_of state k)"
    by (rule node_body_success_frame)
  moreover have "distinct (concat (map declared_outputs stage_order))"
    by (simp add: stage_order_def)
  ultimately show ?thesis
    by (simp add: build_graph_names)
qed

text \<open>
  Claim C5. When a run stops with an exception, some stage \<open>k\<close> raised it: the stages
  before \<open>k\<close> ran in order and completed, the state they left is the state the failed stage
  was given and also the state at the moment the run stopped (the failed stage added
  nothing), and the last step is the invocation of stage \<open>k\<close>: no later stage was invoked.
  \<open>run\<close> itself then raises the stage's exception.
\<close>

theorem failed_stage_leaves_state:
  assumes "invoke (build_graph env) [] evs = (Some e, s', evs', tr)"
  shows "\<exists>k < length stage_order. \<exists>evs_k.
           run_in_order (take k (nodes (build_graph env))) [] evs [] =
             (None, s', evs_k, concat (map (\<lambda>n. [Invoked n, Completed n]) (take k stage_order)))
         \<and> snd (nodes (build_graph env) ! k) s' evs_k = (Some e, s', evs')
         \<and> tr = concat (map (\<lambda>n. [Invoked n, Completed n]) (take k stage_order))
                  @ [Invoked (stage_order ! k)]
         \<and> workflow_run env evs = (Inl e, evs', tr)"
proof -
  let ?ns = "nodes (build_graph env)"
  from assms have fail: "run_in_order ?ns [] evs [] = (Some e, s', evs', tr)"
    by (auto simp: invoke_is_run_in_order split: prod.splits option.splits)
  have "\<exists>k < length ?ns. \<exists>evs_k tr_k.
           run_in_order (take k ?ns) [] evs [] = (None, s', evs_k, tr_k)
         \<and> snd (?ns ! k) s' evs_k = (Some e, s', evs')
         \<and> tr = tr_k @ [Invoked (fst (?ns ! k))]"
    using node_failure_frame fail by (rule run_in_order_failure)
  then obtain k evs_k tr_k where k: "k < length ?ns"
    and pre: "run_in_order (take k ?ns) [] evs [] = (None, s', evs_k, tr_k)"
    and at: "snd (?ns ! k) s' evs_k = (Some e, s', evs')"
    and tr: "tr = tr_k @ [Invoked (fst (?ns ! k))]"
    by blast
  from run_in_order_success_steps [OF pre]
  have tr_k: "tr_k = concat (map (\<lambda>n. [Invoked n, Completed n]) (take k stage_order))"
    by (simp add: take_map [symmetric] build_graph_names)
  from k have "map fst ?ns ! k = fst (?ns ! k)"
    by (rule nth_map)
  then have name: "fst (?ns ! k) = stage_order ! k"
    by (simp add: build_graph_names)
  from assms have run: "workflow_run env evs = (Inl e, evs', tr)"
    by (simp add: workflow_run_def)
  from k pre at tr tr_k name run show ?thesis
    by (auto simp: build_graph_length)
qed

theorem failed_stage_leaves_state_witness:
  "invoke (build_graph metadata_unwritable_env) [] [] =
     (Some (''TypeError'', ''NoneType object is not subscriptable''),
      [(''downloaded_file_path'', Some ''data/raw/srag.csv''),
       (''metadata_file_path'', Some ''data/raw/metadata.json'')],
      [ConfigRead, DirMade ''data/raw'', HttpGet 0, HttpGet 1, FileWritten ''data/raw/srag.csv'',
       FileWritten ''data/raw/metadata.json'', ConfigRead, FileRead (Some ''data/raw/srag.csv''),
       DirMade ''data/processed'', FileWritten ''data/processed/srag.csv''],
      [Invoked ''data_downloader'', Completed ''data_downloader'', Invoked ''data_preprocessor''])
   \<and> workflow_run metadata_unwritable_env [] =
     (Inl (''TypeError'', ''NoneType object is not subscriptable''),
      [ConfigRead, DirMade ''data/raw'', HttpGet 0, HttpGet 1, FileWritten ''data/raw/srag.csv'',
       FileWritten ''data/raw/metadata.json'', ConfigRead, FileRead (Some ''data/raw/srag.csv''),
       DirMade ''data/processed'', FileWritten ''data/processed/srag.csv''],
      [Invoked ''data_downloader'', Completed ''data_downloader'', Invoked ''data_preprocessor''])
   \<and> run_in_order (take 1 (nodes (build_graph metadata_unwritable_env))) [] [] [] =
     (None,
      [(''downloaded_file_path'', Some ''data/raw/srag.csv''),
       (''metadata_file_path'', Some ''data/raw/metadata.json'')],
      [ConfigRead, DirMade ''data/raw'', HttpGet 0, HttpGet 1, FileWritten ''data/raw/srag.csv'',
       FileWritten ''data/raw/metadata.json''],
      [Invoked ''data_downloader'', Completed ''data_downloader''])"
proof -
  have inv: "invoke (build_graph metadata_unwritable_env) [] [] =
     (Some (''TypeError'', ''NoneType object is not subscriptable''),
      [(''downloaded_file_path'', Some ''data/raw/srag.csv''),
       (''metadata_file_path'', Some ''data/raw/metadata.json'')],
      [ConfigRead, DirMade ''data/raw'', HttpGet 0, HttpGet 1, FileWritten ''data/raw/srag.csv'',
       FileWritten ''data/raw/metadata.json'', ConfigRead, FileRead (Some ''data/raw/srag.csv''),
       DirMade ''data/processed'', FileWritten ''data/processed/srag.csv''],
      [Invoked ''data_downloader'', Completed ''data_downloader'', Invoked ''data_preprocessor''])"
    by code_simp
  have pre: "run_in_order (take 1 (nodes (build_graph metadata_unwritable_env))) [] [] [] =
     (None,
      [(''downloaded_file_path'', Some ''data/raw/srag.csv''),
       (''metadata_file_path'', Some ''data/raw/metadata.json'')],
      [ConfigRead, DirMade ''data/raw'', HttpGet 0, HttpGet 1, FileWritten ''data/raw/srag.csv'',
       FileWritten ''data/raw/metadata.json''],
      [Invoked ''data_downloader'', Completed ''data_downloader''])"
    by code_simp
  from failed_stage_leaves_state [OF inv] have "workflow_run metadata_unwritable_env [] =
     (Inl (''TypeError'', ''NoneType object is not subscriptable''),
      [ConfigRead, DirMade ''data/raw'', HttpGet 0, HttpGet 1, FileWritten ''data/raw/srag.csv'',
       FileWritten ''data/raw/metadata.json'', ConfigRead, FileRead (Some ''data/raw/srag.csv''),
       DirMade ''data/processed'', FileWritten ''data/processed/srag.csv''],
      [Invoked ''data_downloader'', Completed ''data_downloader'', Invoked ''data_preprocessor''])"
    by blast
  with inv pre show ?thesis by blast
qed

theorem stage_adds_exactly_its_outputs_witness:
  "(''metrics_calculator'', node_metrics_calculator example_env) \<in> set (nodes (build_graph example_env))
   \<and> node_metrics_calculator example_env
        [(''processed_data_file_path'', Some ''data/processed/srag.csv'')] [] =
      (None,
       [(''processed_data_file_path'', Some ''data/processed/srag.csv''),
        (''periods_file_path'', Some ''data/metrics/periods.json''),
        (''metrics_file_path'', Some ''data/metrics/metrics.json'')],
       [ConfigRead, FileRead (Some ''data/processed/srag.csv''), DirMade ''data/metrics'',
        FileWritten ''data/metrics/metadata.json'', DirMade ''data/metrics'',
        FileWritten ''data/metrics/periods.json'', DirMade ''data/metrics'',
        FileWritten ''data/metrics/metrics.json''])
   \<and> set (keys [(''processed_data_file_path'', Some ''data/processed/srag.csv''),
        (''periods_file_path'', Some ''data/metrics/periods.json''),
        (''metrics_file_path'', Some ''data/metrics/metrics.json'')])
      = set (keys [(''processed_data_file_path'', Some ''data/processed/srag.csv'')])
        \<union> set (declared_outputs ''metrics_calculator'')"
proof -
  have m: "(''metrics_calculator'', node_metrics_calculator example_env)
             \<in> set (nodes (build_graph example_env))"
    by (simp add: build_graph_nodes)
  have r: "node_metrics_calculator example_env
        [(''processed_data_file_path'', Some ''data/processed/srag.csv'')] [] =
      (None,
       [(''processed_data_file_path'', Some ''data/processed/srag.csv''),
        (''periods_file_path'', Some ''data/metrics/periods.json''),
        (''metrics_file_path'', Some ''data/metrics/metrics.json'')],
       [ConfigRead, FileRead (Some ''data/processed/srag.csv''), DirMade ''data/metrics'',
        FileWritten ''data/metrics/metadata.json'', DirMade ''data/metrics'',
        FileWritten ''data/metrics/periods.json'', DirMade ''data/metrics'',
        FileWritten ''data/metrics/metrics.json''])"
    by code_simp
  from stage_adds_exactly_its_outputs [OF m r] m r show ?thesis
    by blast
qed

section \<open>A stage without its input\<close>

lemma config_guard_InrD:
  "config_guard msg m evs = (Inr x, evs') \<Longrightarrow> m evs = (Inr x, evs')"
  by (auto simp: config_guard_def split: prod.splits sum.splits if_splits)

lemma data_preprocessor_call_needs_input:
  assumes "dict_get state ''downloaded_file_path'' = None"
  shows "fst (data_preprocessor_call env state evs) \<noteq> Inr (Some d)"
proof
  assume "fst (data_preprocessor_call env state evs) = Inr (Some d)"
  then obtain evs' where "data_preprocessor_call env state evs = (Inr (Some d), evs')"
    by (cases "data_preprocessor_call env state evs") auto
  with assms show False
    unfolding data_preprocessor_call_def DataPreprocessorAgent_init_def DataPreprocessorAgent_run_def
      DataPreprocessorTool_init_def run_preprocessing_process_def load_raw_data_def
    by (auto simp: Let_def dest!: io_bind_InrD config_guard_InrD io_return_InrD
        split: if_splits option.splits)
qed

lemma metrics_calculator_call_needs_input:
  assumes "dict_get state ''processed_data_file_path'' = None"
  shows "fst (metrics_calculator_call env state evs) \<noteq> Inr (Some d)"
proof
  assume "fst (metrics_calculator_call env state evs) = Inr (Some d)"
  then obtain evs' where "metrics_calculator_call env state evs = (Inr (Some d), evs')"
    by (cases "metrics_calculator_call env state evs") auto
  with assms show False
    unfolding metrics_calculator_call_def MetricsCalculatorAgent_init_def MetricsCalculatorAgent_run_def
      MetricsCalculatorTool_init_def run_metrics_calculation_def load_and_preprocess_data_def
    by (auto simp: Let_def dest!: io_bind_InrD config_guard_InrD io_return_InrD
        split: if_splits option.splits)
qed

lemma visualizations_call_needs_input:
  assumes "dict_get state ''processed_data_file_path'' = None"
  shows "fst (visualizations_call env state evs) \<noteq> Inr (Some d)"
proof
  assume "fst (visualizations_call env state evs) = Inr (Some d)"
  then obtain evs' where "visualizations_call env state evs = (Inr (Some d), evs')"
    by (cases "visualizations_call env state evs") auto
  with assms show False
    unfolding visualizations_call_def VisualizationsAgent_init_def VisualizationsAgent_run_def
      VisualizationsTool_init_def run_visualization_process_def load_and_preprocess_data_def
    by (auto simp: Let_def dest!: io_bind_InrD config_guard_InrD io_return_InrD
        split: if_splits option.splits)
qed

lemma load_data_file_None:
  "load_data_file env None is_json evs = (Inr x, evs') \<Longrightarrow> x = None"
  by (auto simp: load_data_file_def dest!: io_bind_InrD io_return_InrD)

lemma report_generator_call_needs_input:
  assumes "dict_get state ''metrics_file_path'' = None
         \<or> dict_get state ''last_12_months_json_file_path'' = None
         \<or> dict_get state ''news_file_path'' = None"
  shows "fst (report_generator_call env state evs) \<noteq> Inr (Some d)"
proof
  assume "fst (report_generator_call env state evs) = Inr (Some d)"
  then obtain evs' where "report_generator_call env state evs = (Inr (Some d), evs')"
    by (cases "report_generator_call env state evs") auto
  then obtain tool evs0 p evs1 where
    init: "ReportGeneratorTool_init env (dict_get state ''metrics_file_path'')
          (dict_get state ''last_30_days_json_file_path'')
          (dict_get state ''last_12_months_json_file_path'')
          (dict_get state ''news_file_path'') evs = (Inr tool, evs0)"
    and prompt: "build_prompt env tool evs0 = (Inr (Some p), evs1)"
    unfolding report_generator_call_def ReportGeneratorAgent_init_def ReportGeneratorAgent_run_def
      run_report_process_def
    by (auto simp: truthy_str_def dest!: io_bind_InrD io_return_InrD split: if_splits option.splits)
  from init have tool: "rg_metrics_file_path tool = dict_get state ''metrics_file_path''"
    "rg_last_12_months_json_file_path tool = dict_get state ''last_12_months_json_file_path''"
    "rg_news_file_path tool = dict_get state ''news_file_path''"
    unfolding ReportGeneratorTool_init_def
    by (auto simp: io_raise_def dest!: io_bind_InrD config_guard_InrD io_return_InrD
        split: if_splits)
  from prompt assms show False
    unfolding build_prompt_def tool
    by (auto simp: truthy_str_def dest!: io_bind_InrD io_return_InrD load_data_file_None
        split: if_splits option.splits)
qed

lemma io_catch_all_SomeD:
  "io_catch_all m None evs = (Inr (Some x), evs') \<Longrightarrow> m evs = (Inr (Some x), evs')"
  by (auto simp: io_catch_all_def split: prod.splits sum.splits)

lemma load_json_None: "load_json env None evs \<noteq> (Inr x, evs')"
  by (auto simp: load_json_def io_defs)

lemma read_or_raise_None: "read_or_raise env is_json None evs \<noteq> (Inr x, evs')"
  by (auto simp: read_or_raise_def io_defs)

lemma final_report_generator_call_needs_input:
  assumes "dict_get state ''metadata_file_path'' = None
         \<or> dict_get state ''periods_file_path'' = None
         \<or> dict_get state ''metrics_file_path'' = None
         \<or> dict_get state ''report_file_path'' = None"
  shows "fst (final_report_generator_call env state evs) \<noteq> Inr (Some d)"
proof
  assume "fst (final_report_generator_call env state evs) = Inr (Some d)"
  then obtain evs' where "final_report_generator_call env state evs = (Inr (Some d), evs')"
    by (cases "final_report_generator_call env state evs") auto
  then obtain tool evs0 rs evs1 evs2 where
    init: "FinalReportGeneratorTool_init env (dict_get state ''metadata_file_path'')
          (dict_get state ''periods_file_path'') (dict_get state ''metrics_file_path'')
          (dict_get state ''report_file_path'') (dict_get state ''last_30_days_plot_file_path'')
          (dict_get state ''last_12_months_plot_file_path'') evs = (Inr tool, evs0)"
    and rs: "get_replacements env tool evs1 = (Inr rs, evs2)"
    unfolding final_report_generator_call_def FinalReportGeneratorAgent_init_def
      FinalReportGeneratorAgent_run_def run_generation_process_def
    by (auto simp: truthy_str_def dest!: io_bind_InrD io_return_InrD io_catch_all_SomeD
        split: if_splits option.splits)
  from init have tool: "fr_metadata_file_path tool = dict_get state ''metadata_file_path''"
    "fr_periods_file_path tool = dict_get state ''periods_file_path''"
    "fr_metrics_file_path tool = dict_get state ''metrics_file_path''"
    "fr_report_file_path tool = dict_get state ''report_file_path''"
    unfolding FinalReportGeneratorTool_init_def
    by (auto simp: io_raise_def dest!: io_bind_InrD config_guard_InrD io_return_InrD
        split: if_splits cfgval.splits)
  from rs assms show False
    unfolding get_replacements_def tool
    by (auto simp: load_json_None read_or_raise_None dest!: io_bind_InrD)
qed


lemma node_body_no_result:
  assumes "\<forall>d. fst (agent evs) \<noteq> Inr (Some d)"
  shows "fst (snd (node_body agent ks state evs)) = state"
proof (cases "agent evs")
  case (Pair r evs1)
  show ?thesis
  proof (cases r)
    case (Inl e)
    with Pair show ?thesis by (simp add: node_body_def)
  next
    case (Inr result)
    with Pair assms have "result = None" by (cases result) auto
    with Pair Inr show ?thesis
      by (cases ks) (simp_all add: node_body_def getitem_def)
  qed
qed

lemma metrics_calculator_call_without_input:
  assumes "dict_get state ''processed_data_file_path'' = None"
  shows "metrics_calculator_call env state evs =
           (case fst (MetricsCalculatorTool_init env None evs) of
              Inl e \<Rightarrow> (Inl e, evs @ [ConfigRead])
            | Inr tool \<Rightarrow> (Inr None, evs @ [ConfigRead, FileRead None]))"
proof (cases "MetricsCalculatorTool_init env None evs")
  case (Pair r evs1)
  then have evs1: "evs1 = evs @ [ConfigRead]"
    using MetricsCalculatorTool_init_events [of env None evs] by simp
  show ?thesis
  proof (cases r)
    case (Inl e)
    with Pair evs1 assms show ?thesis
      by (simp add: metrics_calculator_call_def MetricsCalculatorAgent_init_def io_bind_def)
  next
    case (Inr tool)
    with Pair have "mc_processed_data_file_path tool = None"
      by (auto dest: MetricsCalculatorTool_init_path)
    with Pair Inr evs1 assms show ?thesis
      by (simp add: metrics_calculator_call_def
          MetricsCalculatorAgent_init_def MetricsCalculatorAgent_run_def run_metrics_calculation_def
          load_and_preprocess_data_def truthy_dict_def io_defs)
  qed
qed

lemma stage_call_of_name:
  "stage_call env ''data_preprocessor'' = data_preprocessor_call env"
  "stage_call env ''metrics_calculator'' = metrics_calculator_call env"
  "stage_call env ''visualizations'' = visualizations_call env"
  "stage_call env ''report_generator'' = report_generator_call env"
  "stage_call env ''final_report_generator'' = final_report_generator_call env"
  by (simp_all add: stage_call_def)

lemma node_of_name:
  assumes "name \<in> set stage_order"
  shows "map_of (nodes (build_graph env)) name =
           Some (\<lambda>s. node_body (stage_call env name s) (declared_outputs name) s)"
proof -
  from assms have "name = ''data_downloader'' \<or> name = ''data_preprocessor''
      \<or> name = ''metrics_calculator'' \<or> name = ''visualizations'' \<or> name = ''news_collector''
      \<or> name = ''report_generator'' \<or> name = ''final_report_generator''"
    by (simp add: stage_order_def)
  then show ?thesis
    by (elim disjE)
       (simp_all add: build_graph_nodes stage_call_def nodes_as_node_body del: declared_outputs.simps)
qed

text \<open>
  Claim C2, for the keys a stage opens. No stage checks its required keys before it works:
  a key that is absent or null reaches the stage's agent as \<open>None\<close>. For every stage and
  every required key whose value the stage's tool opens as a file, on a state without that
  key the stage's agent produces no result (its constructor raises the configuration
  error, or its run reports the failure by returning \<open>None\<close>), and the node leaves the state
  as it was. The metrics stage invoked without \<open>processed_data_file_path\<close> reads the
  configuration first; once its tool is built, the loader is given the path \<open>None\<close> and the
  run returns \<open>None\<close>.
\<close>

theorem stage_without_input_gives_no_result:
  assumes k: "k \<in> set (opened_inputs name)" and none: "dict_get state k = None"
  shows "k \<in> set (required_inputs name)
       \<and> map_of (nodes (build_graph env)) name =
           Some (\<lambda>s. node_body (stage_call env name s) (declared_outputs name) s)
       \<and> (\<forall>d. fst (stage_call env name state evs) \<noteq> Inr (Some d))
       \<and> fst (snd (node_body (stage_call env name state) (declared_outputs name) state evs)) = state
       \<and> (name = ''metrics_calculator'' \<longrightarrow>
            stage_call env name state evs =
              (case fst (MetricsCalculatorTool_init env None evs) of
                 Inl e \<Rightarrow> (Inl e, evs @ [ConfigRead])
               | Inr tool \<Rightarrow> (Inr None, evs @ [ConfigRead, FileRead None])))"
proof -
  from k have names: "name = ''data_preprocessor'' \<or> name = ''metrics_calculator''
      \<or> name = ''visualizations'' \<or> name = ''report_generator''
      \<or> name = ''final_report_generator''"
    by (simp split: if_splits)
  then have "name \<in> set stage_order"
    by (auto simp: stage_order_def)
  then have node: "map_of (nodes (build_graph env)) name =
           Some (\<lambda>s. node_body (stage_call env name s) (declared_outputs name) s)"
    by (rule node_of_name)
  from names k have req: "k \<in> set (required_inputs name)"
    by (elim disjE) auto
  have nores: "fst (stage_call env name state evs) \<noteq> Inr (Some d)" for d
    using names
  proof (elim disjE)
    assume n: "name = ''data_preprocessor''"
    with k none have "dict_get state ''downloaded_file_path'' = None" by simp
    then show ?thesis
      unfolding n stage_call_of_name by (rule data_preprocessor_call_needs_input)
  next
    assume n: "name = ''metrics_calculator''"
    with k none have "dict_get state ''processed_data_file_path'' = None" by simp
    then show ?thesis
      unfolding n stage_call_of_name by (rule metrics_calculator_call_needs_input)
  next
    assume n: "name = ''visualizations''"
    with k none have "dict_get state ''processed_data_file_path'' = None" by simp
    then show ?thesis
      unfolding n stage_call_of_name by (rule visualizations_call_needs_input)
  next
    assume n: "name = ''report_generator''"
    with k none have "dict_get state ''metrics_file_path'' = None
         \<or> dict_get state ''last_12_months_json_file_path'' = None
         \<or> dict_get state ''news_file_path'' = None" by auto
    then show ?thesis
      unfolding n stage_call_of_name by (rule report_generator_call_needs_input)
  next
    assume n: "name = ''final_report_generator''"
    with k none have "dict_get state ''metadata_file_path'' = None
         \<or> dict_get state ''periods_file_path'' = None
         \<or> dict_get state ''metrics_file_path'' = None
         \<or> dict_get state ''report_file_path'' = None" by auto
    then show ?thesis
      unfolding n stage_call_of_name by (rule final_report_generator_call_needs_input)
  qed
  then have frame: "fst (snd (node_body (stage_call env name state) (declared_outputs name)
      state evs)) = state"
    by (intro node_body_no_result) simp
  have met: "stage_call env name state evs =
              (case fst (MetricsCalculatorTool_init env None evs) of
                 Inl e \<Rightarrow> (Inl e, evs @ [ConfigRead])
               | Inr tool \<Rightarrow> (Inr None, evs @ [ConfigRead, FileRead None]))"
    if n: "name = ''metrics_calculator''"
  proof -
    from n k none have "dict_get state ''processed_data_file_path'' = None" by simp
    then show ?thesis
      unfolding n stage_call_of_name by (rule metrics_calculator_call_without_input)
  qed
  from req node nores frame met show ?thesis
    by blast
qed

text \<open>The visualisation stage on the empty state: what it does before it reports the failure.\<close>

lemma visualizations_partial_work:
  "stage_call example_env ''visualizations'' [] [] =
     (Inr None, [ConfigRead, DirMade ''data/viz'', DirMade ''data/viz'',
                 FileWritten ''data/viz/metadata.json'', FileRead None])"
  by code_simp

theorem stage_without_input_gives_no_result_witness:
  "''processed_data_file_path'' \<in> set (opened_inputs ''metrics_calculator'')
   \<and> ''processed_data_file_path'' \<in> set (required_inputs ''metrics_calculator'')
   \<and> dict_get [] ''processed_data_file_path'' = None
   \<and> stage_call example_env ''metrics_calculator'' [] [] = (Inr None, [ConfigRead, FileRead None])
   \<and> fst (snd (node_body (stage_call example_env ''metrics_calculator'' [])
                  (declared_outputs ''metrics_calculator'') [] [])) = []
   \<and> ''processed_data_file_path'' \<in> set (opened_inputs ''visualizations'')
   \<and> stage_call example_env ''visualizations'' [] [] =
       (Inr None, [ConfigRead, DirMade ''data/viz'', DirMade ''data/viz'',
                   FileWritten ''data/viz/metadata.json'', FileRead None])
   \<and> fst (snd (node_body (stage_call example_env ''visualizations'' [])
                  (declared_outputs ''visualizations'') [] [])) = []"
proof -
  have h: "''processed_data_file_path'' \<in> set (opened_inputs ''metrics_calculator'')"
    "dict_get [] ''processed_data_file_path'' = None"
    by (simp_all add: dict_get_def)
  have v: "''processed_data_file_path'' \<in> set (opened_inputs ''visualizations'')"
    by simp
  have "\<exists>tool. fst (MetricsCalculatorTool_init example_env None []) = Inr tool"
    by (simp add: MetricsCalculatorTool_init_def config_guard_def load_config_def getsection_def io_defs
        example_env_def example_config_def)
  with stage_without_input_gives_no_result [OF h, of example_env "[]"]
    stage_without_input_gives_no_result [OF v h(2), of example_env "[]"]
    h v visualizations_partial_work
  show ?thesis
    by auto
qed

text \<open>
  Claim C2, as stated, at a concrete input: on the empty state the metrics stage does not
  fail with a MissingDependency failure before working; it reads the configuration,
  attempts to read the data and raises a TypeError that names no key.
\<close>

theorem metrics_stage_raises_type_error:
  "dict_get [] ''processed_data_file_path'' = None
   \<and> node_metrics_calculator example_env [] [] =
       (Some (''TypeError'', ''NoneType object is not subscriptable''), [],
        [ConfigRead, FileRead None])
   \<and> ''TypeError'' \<noteq> ''MissingDependency''"
  by code_simp

section \<open>The state of a complete run\<close>

lemma run_in_order_Cons_success:
  assumes "run_in_order ((n, f) # rest) s evs tr = (None, s', evs', tr')"
  shows "\<exists>s1 evs1. f s evs = (None, s1, evs1)
           \<and> run_in_order rest s1 evs1 (tr @ [Invoked n, Completed n]) = (None, s', evs', tr')"
  using assms by (auto split: prod.splits option.splits)

lemma final_report_generator_call_value:
  "final_report_generator_call env state evs = (Inr (Some d), evs') \<Longrightarrow>
     \<exists>p. d = [(''final_report_file_path'', Some p)] \<and> p \<noteq> []"
  unfolding final_report_generator_call_def FinalReportGeneratorAgent_run_def
  by (auto simp: truthy_str_def dest!: io_bind_InrD io_return_InrD split: if_splits option.splits)

lemma node_success_append:
  assumes "node_body (call s) ks s evs = (None, s', evs')"
    and "\<And>d evs1. call s evs = (Inr (Some d), evs1) \<Longrightarrow> map fst d = ks"
    and "distinct ks" "ks \<noteq> []" "set ks \<inter> set (map fst s) = {}"
  shows "\<exists>d. call s evs = (Inr (Some d), evs') \<and> map fst d = ks \<and> s' = s @ d"
  using assms(2-5) assms(1) by (rule node_body_success_append)

text \<open>A node's agent call reads the state by key only: the order of the entries is immaterial.\<close>

lemma stage_call_reads_by_key:
  assumes "map_of s = map_of s'"
  shows "stage_call env name s = stage_call env name s'"
proof -
  from assms have "dict_get s k = dict_get s' k" for k
    by (simp add: dict_get_def)
  then show ?thesis
    by (simp add: stage_call_def data_downloader_call_def data_preprocessor_call_def
        metrics_calculator_call_def visualizations_call_def news_collector_call_def
        report_generator_call_def final_report_generator_call_def)
qed

lemma map_of_read_channels:
  "map_of (read_channels ks s) k = (if k \<in> set ks then map_of s k else None)"
  unfolding read_channels_def
  by (induction ks) (auto simp: map_add_def split: option.splits)

lemma keys_read_channels:
  "keys (read_channels ks s) = filter (\<lambda>k. map_of s k \<noteq> None) ks"
  unfolding read_channels_def keys_def
  by (induction ks) (auto split: option.splits)

lemma read_channels_all:
  assumes "set (map fst s) = set ks"
  shows "map_of (read_channels ks s) = map_of s" "keys (read_channels ks s) = ks"
proof -
  have in_ks: "map_of s k \<noteq> None \<longleftrightarrow> k \<in> set ks" for k
    using assms by (simp add: map_of_eq_None_iff)
  show "map_of (read_channels ks s) = map_of s"
  proof
    fix k
    show "map_of (read_channels ks s) k = map_of s k"
      using in_ks [of k] by (cases "map_of s k") (auto simp: map_of_read_channels)
  qed
  show "keys (read_channels ks s) = ks"
    using in_ks by (simp add: keys_read_channels)
qed

text \<open>
  Claim C6, with the count the code has. When \<open>run\<close> returns a state, every stage's agent
  returned a dictionary with the keys that the stage declares, and the final state holds
  exactly the entries of these seven dictionaries: its keys are the twelve distinct keys
  of \<open>AgentState\<close>, each with the value its stage produced; \<open>final_report_file_path\<close> is
  among them with a non-empty path. Nothing is said about the order of the keys: the final
  state is described by its key set and its values, and the state each agent call is given
  is read by key only.
\<close>

theorem all_stages_succeed_final_state:
  assumes "workflow_run env evs = (Inr final, evs', tr)"
  shows "\<exists>d1 d2 d3 d4 d5 d6 d7 e1 e2 e3 e4 e5 e6.
      data_downloader_call env [] evs = (Inr (Some d1), e1)
    \<and> data_preprocessor_call env d1 e1 = (Inr (Some d2), e2)
    \<and> metrics_calculator_call env (d1 @ d2) e2 = (Inr (Some d3), e3)
    \<and> visualizations_call env (d1 @ d2 @ d3) e3 = (Inr (Some d4), e4)
    \<and> news_collector_call env (d1 @ d2 @ d3 @ d4) e4 = (Inr (Some d5), e5)
    \<and> report_generator_call env (d1 @ d2 @ d3 @ d4 @ d5) e5 = (Inr (Some d6), e6)
    \<and> final_report_generator_call env (d1 @ d2 @ d3 @ d4 @ d5 @ d6) e6 = (Inr (Some d7), evs')
    \<and> map (\<lambda>d. set (keys d)) [d1, d2, d3, d4, d5, d6, d7] =
        map (\<lambda>n. set (declared_outputs n)) stage_order
    \<and> map_of final = map_of (d1 @ d2 @ d3 @ d4 @ d5 @ d6 @ d7)
    \<and> set (keys final) = set AgentState_keys
    \<and> distinct (keys final)
    \<and> length (keys final) = 12
    \<and> (\<exists>p. map_of final ''final_report_file_path'' = Some (Some p) \<and> p \<noteq> [])"
proof -
  from assms obtain s7 where
    run: "run_in_order (nodes (build_graph env)) [] evs [] = (None, s7, evs', tr)"
    and final: "final = read_channels AgentState_keys s7"
    by (auto simp: workflow_run_def invoke_is_run_in_order split: prod.splits option.splits)
  from run obtain s1 e1 s2 e2 s3 e3 s4 e4 s5 e5 s6 e6 where
    n1: "node_data_downloader env [] evs = (None, s1, e1)" and
    n2: "node_data_preprocessor env s1 e1 = (None, s2, e2)" and
    n3: "node_metrics_calculator env s2 e2 = (None, s3, e3)" and
    n4: "node_visualizations env s3 e3 = (None, s4, e4)" and
    n5: "node_news_collector env s4 e4 = (None, s5, e5)" and
    n6: "node_report_generator env s5 e5 = (None, s6, e6)" and
    n7: "node_final_report_generator env s6 e6 = (None, s7, evs')"
    unfolding build_graph_nodes
    by (auto simp del: run_in_order.simps(2) dest!: run_in_order_Cons_success)
  from n1 obtain d1 where d1: "data_downloader_call env [] evs = (Inr (Some d1), e1)"
    "map fst d1 = [''downloaded_file_path'', ''metadata_file_path'']" "s1 = d1"
    unfolding node_data_downloader_def
    by (auto dest!: node_success_append dest: data_downloader_call_keys)
  from n2 obtain d2 where d2: "data_preprocessor_call env s1 e1 = (Inr (Some d2), e2)"
    "map fst d2 = [''processed_data_file_path'']" "s2 = s1 @ d2"
    unfolding node_data_preprocessor_def
    by (auto dest!: node_success_append dest: data_preprocessor_call_keys simp: d1)
  from n3 obtain d3 where d3: "metrics_calculator_call env s2 e2 = (Inr (Some d3), e3)"
    "map fst d3 = [''periods_file_path'', ''metrics_file_path'']" "s3 = s2 @ d3"
    unfolding node_metrics_calculator_def
    by (auto dest!: node_success_append dest: metrics_calculator_call_keys simp: d1 d2)
  from n4 obtain d4 where d4: "visualizations_call env s3 e3 = (Inr (Some d4), e4)"
    "map fst d4 = [''last_30_days_json_file_path'', ''last_30_days_plot_file_path'',
        ''last_12_months_json_file_path'', ''last_12_months_plot_file_path'']" "s4 = s3 @ d4"
    unfolding node_visualizations_def
    by (auto dest!: node_success_append dest: visualizations_call_keys simp: d1 d2 d3)
  from n5 obtain d5 where d5: "news_collector_call env s4 e4 = (Inr (Some d5), e5)"
    "map fst d5 = [''news_file_path'']" "s5 = s4 @ d5"
    unfolding node_news_collector_def
    by (auto dest!: node_success_append dest: news_collector_call_keys simp: d1 d2 d3 d4)
  from n6 obtain d6 where d6: "report_generator_call env s5 e5 = (Inr (Some d6), e6)"
    "map fst d6 = [''report_file_path'']" "s6 = s5 @ d6"
    unfolding node_report_generator_def
    by (auto dest!: node_success_append dest: report_generator_call_keys simp: d1 d2 d3 d4 d5)
  from n7 obtain d7 where d7: "final_report_generator_call env s6 e6 = (Inr (Some d7), evs')"
    "map fst d7 = [''final_report_file_path'']" "s7 = s6 @ d7"
    unfolding node_final_report_generator_def
    by (auto dest!: node_success_append dest: final_report_generator_call_keys simp: d1 d2 d3 d4 d5 d6)
  from d7(1) obtain p where p: "d7 = [(''final_report_file_path'', Some p)]" "p \<noteq> []"
    by (blast dest: final_report_generator_call_value)
  have s7: "s7 = d1 @ d2 @ d3 @ d4 @ d5 @ d6 @ d7"
    by (simp add: d1 d2 d3 d4 d5 d6 d7)
  have ks: "map fst s7 = concat (map declared_outputs stage_order)"
    by (simp add: s7 d1 d2 d3 d4 d5 d6 d7 stage_order_def)
  have each: "map (\<lambda>d. set (keys d)) [d1, d2, d3, d4, d5, d6, d7] =
        map (\<lambda>n. set (declared_outputs n)) stage_order"
  proof -
    have "set (map fst d1) = set (declared_outputs ''data_downloader'')"
      "set (map fst d2) = set (declared_outputs ''data_preprocessor'')"
      "set (map fst d3) = set (declared_outputs ''metrics_calculator'')"
      "set (map fst d4) = set (declared_outputs ''visualizations'')"
      "set (map fst d5) = set (declared_outputs ''news_collector'')"
      "set (map fst d6) = set (declared_outputs ''report_generator'')"
      "set (map fst d7) = set (declared_outputs ''final_report_generator'')"
      unfolding d1(2) d2(2) d3(2) d4(2) d5(2) d6(2) d7(2) by simp_all
    then show ?thesis
      by (simp add: keys_def stage_order_def)
  qed
  have "set (concat (map declared_outputs stage_order)) = set AgentState_keys"
    by (auto simp: stage_order_def AgentState_keys_def)
  with ks have all: "set (map fst s7) = set AgentState_keys"
    by simp
  have m: "map_of final = map_of (d1 @ d2 @ d3 @ d4 @ d5 @ d6 @ d7)"
    unfolding final using read_channels_all(1) [OF all] by (simp only: s7)
  have k: "keys final = AgentState_keys"
    unfolding final by (rule read_channels_all(2) [OF all])
  have k1: "set (keys final) = set AgentState_keys" by (simp only: k)
  have k2: "distinct (keys final)" unfolding k by (simp add: AgentState_keys_def)
  have k3: "length (keys final) = 12" unfolding k by (simp add: AgentState_keys_def)
  have "''final_report_file_path'' \<notin> set (map fst s6)"
    unfolding d6(3) d5(3) d4(3) d3(3) d2(3) d1(3) map_append
    by (simp add: d1(2) d2(2) d3(2) d4(2) d5(2) d6(2))
  then have "map_of s6 ''final_report_file_path'' = None"
    by (simp add: map_of_eq_None_iff)
  then have "map_of (s6 @ d7) ''final_report_file_path'' = Some (Some p)"
    by (simp add: p map_add_def)
  then have "map_of s7 ''final_report_file_path'' = Some (Some p)"
    by (simp only: d7(3))
  then have val: "map_of final ''final_report_file_path'' = Some (Some p)"
    unfolding final by (simp add: read_channels_all(1) [OF all])
  from d1(1) d2(1) d3(1) d4(1) d5(1) d6(1) d7(1) each m k1 k2 k3 val p(2) show ?thesis
    unfolding d1(3) d2(3) d3(3) d4(3) d5(3) d6(3) append_assoc
    by blast
qed

lemma example_run: "fst (workflow_run example_env []) = Inr example_final_state"
  by code_simp

theorem all_stages_succeed_final_state_witness:
  "\<not> isl (fst (workflow_run example_env []))
   \<and> set (projr (fst (workflow_run example_env []))) = set example_final_state
   \<and> set (keys (projr (fst (workflow_run example_env [])))) = set AgentState_keys
   \<and> distinct (keys (projr (fst (workflow_run example_env []))))
   \<and> length (keys (projr (fst (workflow_run example_env [])))) = 12"
proof -
  obtain evs' tr where r: "workflow_run example_env [] = (Inr example_final_state, evs', tr)"
    using example_run by (cases "workflow_run example_env []") auto
  from all_stages_succeed_final_state [OF r] have
    "set (keys example_final_state) = set AgentState_keys
     \<and> distinct (keys example_final_state) \<and> length (keys example_final_state) = 12"
    by blast
  with example_run show ?thesis
    by simp
qed

text \<open>
  Claim C6, as stated, at the sample run in which all seven stages succeed: the final
  state holds every key that \<open>AgentState\<close> declares, and these are twelve distinct keys,
  not eleven.
\<close>

theorem final_state_has_twelve_keys:
  "\<not> isl (fst (workflow_run example_env []))
   \<and> distinct (keys (projr (fst (workflow_run example_env []))))
   \<and> set (keys (projr (fst (workflow_run example_env [])))) = set AgentState_keys
   \<and> length (keys (projr (fst (workflow_run example_env [])))) = 12
   \<and> length (keys (projr (fst (workflow_run example_env [])))) \<noteq> 11"
proof -
  have "set (keys example_final_state) = set AgentState_keys"
    by (auto simp: example_final_state_def keys_def AgentState_keys_def)
  with example_run show ?thesis
    by (simp add: example_final_state_def keys_def)
qed

section \<open>Running twice\<close>

lemma history_freeI: "(\<And>evs. m evs = (r, evs @ new)) \<Longrightarrow> history_free m"
  unfolding history_free_def by blast

lemma hf_return [intro!, simp]: "history_free (io_return x)"
  by (rule history_freeI [of _ "Inr x" "[]"]) (simp add: io_return_def)

lemma hf_raise [intro!, simp]: "history_free (io_raise e)"
  by (rule history_freeI [of _ "Inl e" "[]"]) (simp add: io_raise_def)

lemma hf_lift [intro!, simp]: "history_free (io_lift r)"
  by (rule history_freeI [of _ r "[]"]) (simp add: io_lift_def)

lemma hf_emit [intro!, simp]: "history_free (io_emit ev)"
  by (rule history_freeI [of _ "Inr ()" "[ev]"]) (simp add: io_emit_def)

lemma hf_bind [intro!]:
  assumes m: "history_free m" and f: "\<And>x. history_free (f x)"
  shows "history_free (io_bind m f)"
proof -
  from m obtain r new where m': "\<And>evs. m evs = (r, evs @ new)"
    unfolding history_free_def by blast
  show ?thesis
  proof (cases r)
    case (Inl e)
    show ?thesis
      by (rule history_freeI [of _ "Inl e" new]) (simp add: io_bind_def m' Inl)
  next
    case (Inr x)
    from f [of x] obtain r' new' where f': "\<And>evs. f x evs = (r', evs @ new')"
      unfolding history_free_def by blast
    show ?thesis
      by (rule history_freeI [of _ r' "new @ new'"]) (simp add: io_bind_def m' Inr f')
  qed
qed

lemma hf_catch_all [intro!]:
  assumes m: "history_free m"
  shows "history_free (io_catch_all m d)"
proof -
  from m obtain r new where m': "\<And>evs. m evs = (r, evs @ new)"
    unfolding history_free_def by blast
  show ?thesis
    by (rule history_freeI [of _ "case r of Inl e \<Rightarrow> Inr d | Inr x \<Rightarrow> Inr x" new])
      (simp add: io_catch_all_def m' split: sum.splits)
qed

lemma hf_config_guard [intro!]:
  assumes m: "history_free m"
  shows "history_free (config_guard msg m)"
proof -
  from m obtain r new where m': "\<And>evs. m evs = (r, evs @ new)"
    unfolding history_free_def by blast
  show ?thesis
    by (rule history_freeI [of _
          "case r of
             Inl e \<Rightarrow> if fst e = ''FileNotFoundError'' \<or> fst e = ''KeyError''
                      then Inl (''ValueError'', msg) else Inl e
           | Inr x \<Rightarrow> Inr x" new])
      (simp add: config_guard_def m' split: sum.splits)
qed

lemma hf_if [intro!]:
  "(c \<Longrightarrow> history_free a) \<Longrightarrow> (\<not> c \<Longrightarrow> history_free b) \<Longrightarrow> history_free (if c then a else b)"
  by simp

lemma hf_case_option [intro!]:
  "(x = None \<Longrightarrow> history_free a) \<Longrightarrow> (\<And>y. x = Some y \<Longrightarrow> history_free (b y)) \<Longrightarrow>
     history_free (case x of None \<Rightarrow> a | Some y \<Rightarrow> b y)"
  by (cases x) simp_all

lemma hf_case_sum [intro!]:
  "(\<And>y. x = Inl y \<Longrightarrow> history_free (a y)) \<Longrightarrow> (\<And>y. x = Inr y \<Longrightarrow> history_free (b y)) \<Longrightarrow>
     history_free (case x of Inl y \<Rightarrow> a y | Inr y \<Rightarrow> b y)"
  by (cases x) simp_all

lemma hf_case_bool [intro!]:
  "(x \<Longrightarrow> history_free a) \<Longrightarrow> (\<not> x \<Longrightarrow> history_free b) \<Longrightarrow>
     history_free (case x of True \<Rightarrow> a | False \<Rightarrow> b)"
  by (cases x) simp_all

lemma hf_case_cfgval [intro!]:
  "(\<And>y. history_free (a y)) \<Longrightarrow> (\<And>y. history_free (b y)) \<Longrightarrow> (\<And>y. history_free (c y)) \<Longrightarrow>
     (\<And>y. history_free (d y)) \<Longrightarrow>
     history_free (case x of CStr y \<Rightarrow> a y | CInt y \<Rightarrow> b y | CList y \<Rightarrow> c y | CDict y \<Rightarrow> d y)"
  by (cases x) simp_all

lemma hf_case_loaded [intro!]:
  "(\<And>y. history_free (a y)) \<Longrightarrow> (\<And>y. history_free (b y)) \<Longrightarrow>
     history_free (case x of Frame y \<Rightarrow> a y | Series y \<Rightarrow> b y)"
  by (cases x) simp_all

lemma hf_let [intro!]: "history_free (f x) \<Longrightarrow> history_free (Let x f)"
  by simp

lemma hf_config [intro!]:
  "history_free (load_config env)" "history_free (getsection config name)"
  "history_free (getkey cfg k)" "history_free (as_path v)" "history_free (getpath cfg k)"
  "history_free (getpath2 cfg k k2)"
  "history_free (makedirs env d)" "history_free (try_write env p)"
  unfolding load_config_def getsection_def getkey_def as_path_def getpath_def getpath2_def
    makedirs_def try_write_def
  by auto

lemma hf_try_links [intro!]: "history_free (try_links env dest full links)"
  by (induction links) (auto simp: download_and_save_file_def downloader_save_metadata_def)

lemma hf_data_downloader_call [intro!]: "history_free (data_downloader_call env state)"
  unfolding data_downloader_call_def DataDownloaderAgent_init_def DataDownloaderTool_init_def
    DataDownloaderAgent_run_def run_download_process_def generate_download_links_def
  by auto

lemma hf_data_preprocessor_call [intro!]: "history_free (data_preprocessor_call env state)"
  unfolding data_preprocessor_call_def DataPreprocessorAgent_init_def DataPreprocessorTool_init_def
    DataPreprocessorAgent_run_def run_preprocessing_process_def load_raw_data_def
    clean_and_transform_data_def process_notification_date_def save_processed_data_def
    save_metadata_def
  by auto

lemma hf_rates [intro!]:
  "history_free (calculate_increase_rate df a b c d)"
  "history_free (calculate_mortality_rate df a b)"
  "history_free (calculate_uti_occupancy_rate df a b)"
  "history_free (calculate_vaccination_rate df a b col)"
  unfolding calculate_increase_rate_def calculate_mortality_rate_def
    calculate_uti_occupancy_rate_def calculate_vaccination_rate_def need_column_def
  by auto

lemma hf_over_windows [intro!]:
  "(\<And>s e. history_free (rate s e)) \<Longrightarrow> history_free (over_windows p rate)"
  unfolding over_windows_def by auto

lemma hf_save_json_file [intro!]: "history_free (save_json_file env cfg name)"
  unfolding save_json_file_def by auto

lemma hf_load_and_preprocess_data [intro!]: "history_free (load_and_preprocess_data env path)"
  unfolding load_and_preprocess_data_def by auto

lemma hf_metrics_calculator_call [intro!]: "history_free (metrics_calculator_call env state)"
  unfolding metrics_calculator_call_def MetricsCalculatorAgent_init_def MetricsCalculatorTool_init_def
    MetricsCalculatorAgent_run_def run_metrics_calculation_def compute_metrics_def increase_rates_def
  by auto

lemma hf_visualizations_call [intro!]: "history_free (visualizations_call env state)"
  unfolding visualizations_call_def VisualizationsAgent_init_def VisualizationsTool_init_def
    VisualizationsAgent_run_def run_visualization_process_def generate_analysis_def
  by auto

lemma hf_news_collector_call [intro!]: "history_free (news_collector_call env state)"
  unfolding news_collector_call_def NewsCollectorAgent_init_def NewsCollectorTool_init_def
    NewsCollectorAgent_run_def run_collection_process_def search_news_def save_results_def
    news_save_metadata_def
  by auto

lemma hf_report_generator_call [intro!]: "history_free (report_generator_call env state)"
  unfolding report_generator_call_def ReportGeneratorAgent_init_def ReportGeneratorTool_init_def
    ReportGeneratorAgent_run_def run_report_process_def build_prompt_def load_data_file_def
    generate_report_def save_report_def report_save_metadata_def
  by auto

lemma hf_apply_replacements [intro!]: "history_free (apply_replacements rs content)"
  by (induction rs arbitrary: content) auto

lemma hf_json [intro!]:
  "history_free (load_json env file_path)" "history_free (json_get j k)"
  "history_free (json_items j)"
  unfolding load_json_def json_get_def json_items_def
  by (auto split: json.splits)

lemma hf_add_groups [intro!]: "history_free (add_groups groups rs)"
  by (induction groups rs rule: add_groups.induct) auto

lemma hf_final_report_generator_call [intro!]: "history_free (final_report_generator_call env state)"
  unfolding final_report_generator_call_def FinalReportGeneratorAgent_init_def
    FinalReportGeneratorTool_init_def FinalReportGeneratorAgent_run_def run_generation_process_def
    get_replacements_def read_or_raise_def lookup_path_def write_text_def gerar_pdf_de_html_def
  by auto

lemma node_body_history_free:
  assumes "\<And>s. history_free (call s)"
  shows "node_history_free (\<lambda>s. node_body (call s) ks s)"
  unfolding node_history_free_def
proof
  fix s
  from assms [of s] obtain r new where a: "\<And>evs. call s evs = (r, evs @ new)"
    unfolding history_free_def by blast
  show "\<exists>x s' new. \<forall>evs. node_body (call s) ks s evs = (x, s', evs @ new)"
  proof (cases r)
    case (Inl e)
    then have "\<forall>evs. node_body (call s) ks s evs = (Some e, s, evs @ new)"
      by (simp add: node_body_def a)
    then show ?thesis by blast
  next
    case (Inr result)
    then have "\<forall>evs. node_body (call s) ks s evs =
        (fst (copy_keys result ks s), snd (copy_keys result ks s), evs @ new)"
      by (simp add: node_body_def a split: prod.splits)
    then show ?thesis by blast
  qed
qed

lemma nodes_history_free:
  assumes "(n, f) \<in> set (nodes (build_graph env))"
  shows "node_history_free f"
proof -
  from assms have
    "f = node_data_downloader env \<or> f = node_data_preprocessor env
     \<or> f = node_metrics_calculator env \<or> f = node_visualizations env
     \<or> f = node_news_collector env \<or> f = node_report_generator env
     \<or> f = node_final_report_generator env"
    by (auto simp: build_graph_nodes)
  then show ?thesis
    by (elim disjE)
      (erule ssubst, subst nodes_as_node_body, rule node_body_history_free, rule
        hf_data_downloader_call hf_data_preprocessor_call hf_metrics_calculator_call
        hf_visualizations_call hf_news_collector_call hf_report_generator_call
        hf_final_report_generator_call)+
qed

lemma run_in_order_history_free:
  assumes "\<And>n f. (n, f) \<in> set ns \<Longrightarrow> node_history_free f"
  shows "\<exists>x s' new tr'. \<forall>evs. run_in_order ns s evs tr = (x, s', evs @ new, tr')"
  using assms
proof (induction ns arbitrary: s tr)
  case Nil
  have "\<forall>evs. run_in_order [] s evs tr = (None, s, evs @ [], tr)" by simp
  then show ?case by blast
next
  case (Cons nf rest)
  obtain n f where nf: "nf = (n, f)" by (cases nf)
  have "node_history_free f"
    by (rule Cons.prems [of n]) (simp add: nf)
  then obtain x s1 new1 where f: "\<And>evs. f s evs = (x, s1, evs @ new1)"
    unfolding node_history_free_def by blast
  show ?case
  proof (cases x)
    case (Some e)
    then have "\<forall>evs. run_in_order (nf # rest) s evs tr = (Some e, s1, evs @ new1, tr @ [Invoked n])"
      by (simp add: nf f)
    then show ?thesis by blast
  next
    case None
    have rest_hf: "node_history_free f'" if "(n', f') \<in> set rest" for n' f'
      by (rule Cons.prems [of n']) (simp add: that)
    have "\<exists>x s' new tr'. \<forall>evs. run_in_order rest s1 evs (tr @ [Invoked n, Completed n]) =
        (x, s', evs @ new, tr')"
      by (rule Cons.IH) (rule rest_hf)
    then obtain x' s' new' tr' where
      r: "\<And>evs. run_in_order rest s1 evs (tr @ [Invoked n, Completed n]) = (x', s', evs @ new', tr')"
      by blast
    have "\<forall>evs. run_in_order (nf # rest) s evs tr = (x', s', evs @ (new1 @ new'), tr')"
      by (simp add: nf f None r)
    then show ?thesis by blast
  qed
qed

lemma workflow_run_history_free:
  "\<exists>r new tr. \<forall>evs. workflow_run env evs = (r, evs @ new, tr)"
proof -
  from run_in_order_history_free [of "nodes (build_graph env)" "[]" "[]"] nodes_history_free
  obtain x s' new tr' where
    r: "\<And>evs. run_in_order (nodes (build_graph env)) [] evs [] = (x, s', evs @ new, tr')"
    by blast
  have "\<forall>evs. workflow_run env evs =
      (case x of None \<Rightarrow> Inr (read_channels AgentState_keys s') | Some e \<Rightarrow> Inl e,
       evs @ new, tr')"
    by (simp add: workflow_run_def invoke_is_run_in_order r split: option.splits)
  then show ?thesis by blast
qed

text \<open>
  Claim C7. Running the workflow a second time in the same environment, after the first
  run and with everything the first run did already recorded, gives the same result (the
  same final state, key for key in the same order, or the same exception), the same
  sequence of stage invocations, and the same new events.
\<close>

theorem rerun_gives_same_state:
  "fst (workflow_run env (fst (snd (workflow_run env evs)))) = fst (workflow_run env evs)
   \<and> snd (snd (workflow_run env (fst (snd (workflow_run env evs))))) = snd (snd (workflow_run env evs))
   \<and> fst (snd (workflow_run env (fst (snd (workflow_run env evs))))) =
       fst (snd (workflow_run env evs)) @ drop (length evs) (fst (snd (workflow_run env evs)))"
proof -
  from workflow_run_history_free [of env] obtain r new tr where
    "\<And>evs. workflow_run env evs = (r, evs @ new, tr)"
    by blast
  then show ?thesis by simp
qed

end
